theory Spec2Isabelle
  imports Complex_Main "HOL-Library.Monad_Syntax"
begin

section \<open>Numbers and vectors\<close>

text \<open>
  The program computes with C++ \<^verbatim>\<open>float\<close>. The embedding reads a finite float as the
  real number it denotes. The curve and the motion of the gondola are computed with the
  exact operations on reals (no rounding, no overflow). The one float value that is not a
  real number and that the program can produce there from finite inputs is the NaN of
  \<^verbatim>\<open>sqrt\<close> at a negative argument (\<^verbatim>\<open>Gondola::animate\<close>); it flows into \<^verbatim>\<open>velocity_\<close>,
  \<^verbatim>\<open>progressAlongSpline_\<close> and \<^verbatim>\<open>rotationAngle_\<close>, so these three fields carry a value of
  type \<open>flt\<close>. An arithmetic operation with a NaN operand is NaN and every comparison with
  NaN is false.

  The knots are whole numbers, and the sum \<^verbatim>\<open>ts_.back() + 1.0f\<close> that computes them is
  rounded as the machine rounds it (\<open>round32\<close> below): single precision holds every whole
  number up to 16777216, the 24th power of 2, and not the next one. Where a statement
  depends on the rounding of the other operations, the rounded operations are written out
  (the section on single precision).
\<close>

datatype flt = Fin real | NaN

fun flt2 :: "(real \<Rightarrow> real \<Rightarrow> real) \<Rightarrow> flt \<Rightarrow> flt \<Rightarrow> flt" where
  "flt2 f (Fin a) (Fin b) = Fin (f a b)"
| "flt2 f _ _ = NaN"

definition fadd :: "flt \<Rightarrow> flt \<Rightarrow> flt" where
  "fadd = flt2 (+)"

definition fsub :: "flt \<Rightarrow> flt \<Rightarrow> flt" where
  "fsub = flt2 (-)"

definition fmul :: "flt \<Rightarrow> flt \<Rightarrow> flt" where
  "fmul = flt2 (*)"

text \<open>Every divisor at a use of \<open>fdiv\<close> below is a finite number other than zero.\<close>

definition fdiv :: "flt \<Rightarrow> flt \<Rightarrow> flt" where
  "fdiv = flt2 (/)"

fun fless :: "flt \<Rightarrow> flt \<Rightarrow> bool" where
  "fless (Fin a) (Fin b) = (a < b)"
| "fless _ _ = False"

fun fle :: "flt \<Rightarrow> flt \<Rightarrow> bool" where
  "fle (Fin a) (Fin b) = (a \<le> b)"
| "fle _ _ = False"

text \<open>\<^verbatim>\<open>sqrt\<close> of the C library: NaN below zero.\<close>

definition fsqrt :: "real \<Rightarrow> flt" where
  "fsqrt a = (if a < 0 then NaN else Fin (sqrt a))"

text \<open>
  Rounding to single precision. \<open>rne\<close> is the nearest integer, a tie going to the even
  one. \<open>round32\<close> rounds a real number to the nearest multiple of the unit in its last
  place, a tie going to the even multiple: with \<open>e\<close> the exponent of the number, the unit is
  2 to the power of \<open>e - 23\<close>, which leaves 24 significant bits. The exponent is at least
  -126: the smaller numbers of the format are not normal and share the unit of exponent
  -126. The rounded value is a \<^verbatim>\<open>float\<close> when its magnitude is below the 128th power of 2
  (\<open>fl32\<close> in the section on single precision); the knots stay far below.
\<close>

definition rne :: "real \<Rightarrow> int" where
  "rne x =
     (let f = \<lfloor>x\<rfloor>
      in if x - of_int f < 1 / 2 then f
         else if 1 / 2 < x - of_int f then f + 1
         else if even f then f else f + 1)"

definition round32 :: "real \<Rightarrow> real" where
  "round32 x =
     (if x = 0 then 0
      else (let e = max \<lfloor>log 2 \<bar>x\<bar>\<rfloor> (- 126);
                u = 2 powi (e - 23)
            in sgn x * of_int (rne (\<bar>x\<bar> / u)) * u))"

text \<open>
  Modelled from the spec: the framework's \<^verbatim>\<open>vec2\<close> (a "2D real vector") with its
  componentwise sum and difference, product and quotient by a scalar, \<^verbatim>\<open>length\<close> (the
  "magnitude") and \<^verbatim>\<open>normalize\<close> (the "unit" vector); \<^verbatim>\<open>framework.h\<close> is not among the
  sources. The quotient of the zero vector by its length 0 is outside the model: it is
  written to \<^verbatim>\<open>position_\<close> by \<^verbatim>\<open>start\<close> only, a field that only \<^verbatim>\<open>draw\<close> reads, and no
  statement below depends on its value.
\<close>

datatype vec2 = Vec2 (vx: real) (vy: real)

instantiation vec2 :: "{zero, plus, minus}"
begin

definition zero_vec2 :: vec2 where
  "zero_vec2 = Vec2 0 0"

definition plus_vec2 :: "vec2 \<Rightarrow> vec2 \<Rightarrow> vec2" where
  "plus_vec2 a b = Vec2 (vx a + vx b) (vy a + vy b)"

definition minus_vec2 :: "vec2 \<Rightarrow> vec2 \<Rightarrow> vec2" where
  "minus_vec2 a b = Vec2 (vx a - vx b) (vy a - vy b)"

instance ..

end

text \<open>\<^verbatim>\<open>v * f\<close>, \<^verbatim>\<open>f * v\<close> and \<^verbatim>\<open>v / f\<close> for a vector \<open>v\<close> and a scalar \<open>f\<close>.\<close>

definition vmul :: "vec2 \<Rightarrow> real \<Rightarrow> vec2" where
  "vmul v f = Vec2 (vx v * f) (vy v * f)"

definition smul :: "real \<Rightarrow> vec2 \<Rightarrow> vec2" where
  "smul f v = Vec2 (f * vx v) (f * vy v)"

definition vdiv :: "vec2 \<Rightarrow> real \<Rightarrow> vec2" where
  "vdiv v f = Vec2 (vx v / f) (vy v / f)"

definition vlength :: "vec2 \<Rightarrow> real" where
  "vlength v = sqrt (vx v * vx v + vy v * vy v)"

definition normalize :: "vec2 \<Rightarrow> vec2" where
  "normalize v = vdiv v (vlength v)"

section \<open>The spline (\<^verbatim>\<open>Spline.cpp\<close>)\<close>

definition Hermite :: "vec2 \<Rightarrow> vec2 \<Rightarrow> real \<Rightarrow> vec2 \<Rightarrow> vec2 \<Rightarrow> real \<Rightarrow> real \<Rightarrow> vec2" where
  "Hermite p0 v0 t0 p1 v1 t1 t =
     (let s = (t - t0) / (t1 - t0);
          a0 = p0;
          a1 = v0;
          a2 = vdiv (vdiv (vmul (p1 - p0) 3) (t1 - t0)) (t1 - t0) - vdiv (v1 + smul 2 v0) (t1 - t0);
          a3 = vdiv (vmul (p0 - p1) 2) ((t1 - t0) ^ 3) + vdiv (v1 + v0) ((t1 - t0) ^ 2)
      in vmul (vmul (vmul a3 s + a2) s + a1) s + a0)"

text \<open>
  The two vectors of the class, which grow together: \<^verbatim>\<open>cps_\<close> holds the control points
  and \<^verbatim>\<open>ts_\<close> their parameters (the knots). The two \<^verbatim>\<open>Geometry\<close> members only feed
  the renderer and are left out, and with them \<^verbatim>\<open>update\<close> and \<^verbatim>\<open>draw\<close>.
\<close>

record spline =
  cps :: "vec2 list"
  ts :: "real list"

definition empty_spline :: spline where
  "empty_spline = \<lparr>cps = [], ts = []\<rparr>"

text \<open>
  \<^verbatim>\<open>Spline::addControlPoint\<close>; the call of \<^verbatim>\<open>update\<close> at its end only feeds the renderer.
\<close>

definition addControlPoint :: "spline \<Rightarrow> vec2 \<Rightarrow> spline" where
  "addControlPoint s cp =
     (let t = (if cps s = [] then 0 else round32 (last (ts s) + 1))
      in \<lparr>cps = cps s @ [cp], ts = ts s @ [t]\<rparr>)"

text \<open>A spline as the program builds it: the points clicked so far, added one by one.\<close>

definition build :: "vec2 list \<Rightarrow> spline" where
  "build ps = foldl addControlPoint empty_spline ps"

text \<open>
  The loop of \<^verbatim>\<open>Spline::evaluate\<close> from index \<open>i\<close> on, for a parameter that is a number.
  The indices into \<^verbatim>\<open>ts_\<close> are in range on every spline that \<^verbatim>\<open>addControlPoint\<close> has
  built, where \<^verbatim>\<open>ts_\<close> is as long as \<^verbatim>\<open>cps_\<close> (lemma \<open>length_ts_build\<close> below); the
  statements about \<^verbatim>\<open>evaluate\<close> are about such splines.
\<close>

function evaluate_from :: "spline \<Rightarrow> real \<Rightarrow> nat \<Rightarrow> vec2" where
  "evaluate_from s t i =
     (if int i < int (length (cps s)) - 1 then
        (if ts s ! i \<le> t \<and> t \<le> ts s ! (i + 1) then
           (let v0 = (if i > 0
                      then vdiv (cps s ! (i + 1) - cps s ! (i - 1)) (ts s ! (i + 1) - ts s ! (i - 1))
                      else Vec2 0 0);
                v1 = (if int i < int (length (cps s)) - 2
                      then vdiv (cps s ! (i + 2) - cps s ! i) (ts s ! (i + 2) - ts s ! i)
                      else Vec2 0 0)
            in Hermite (cps s ! i) v0 (ts s ! i) (cps s ! (i + 1)) v1 (ts s ! (i + 1)) t)
         else evaluate_from s t (i + 1))
      else last (cps s))"
  by pat_completeness auto
termination
  by (relation "measure (\<lambda>(s, t, i). length (cps s) - i)") auto

declare evaluate_from.simps [simp del]

text \<open>
  \<^verbatim>\<open>Spline::evaluate\<close>. At NaN no comparison \<^verbatim>\<open>ts_[i] <= t\<close> holds, so the loop runs
  through and the last control point is returned.
\<close>

definition evaluate :: "spline \<Rightarrow> flt \<Rightarrow> vec2" where
  "evaluate s t =
     (if length (cps s) < 2 then Vec2 0 0
      else (case t of Fin r \<Rightarrow> evaluate_from s r 0 | NaN \<Rightarrow> last (cps s)))"

text \<open>\<^verbatim>\<open>Spline::getKnots\<close>.\<close>

definition getKnots :: "spline \<Rightarrow> real list" where
  "getKnots s = ts s"

text \<open>
  \<^verbatim>\<open>getKnots().back()\<close>: the last knot. On an empty vector \<^verbatim>\<open>back()\<close> has no defined
  behaviour, which is the value \<open>None\<close> here.
\<close>

definition knots_back :: "spline \<Rightarrow> real option" where
  "knots_back s = (if getKnots s = [] then None else Some (last (getKnots s)))"

section \<open>The spline in single precision\<close>

text \<open>
  The value of \<^verbatim>\<open>evaluate\<close> with every operation rounded as the machine rounds it, for the
  one statement below that depends on that. \<open>fl32\<close> is the result of an operation whose
  exact value is \<open>x\<close>: the rounded value when that is a finite \<^verbatim>\<open>float\<close>, and \<open>None\<close> when
  the operation overflows. A division by zero has no finite result either. The model
  follows a computation as long as every result is finite: \<open>None\<close> says that some operation
  gave an infinity or NaN, not what the program returns then.
\<close>

definition fl32 :: "real \<Rightarrow> real option" where
  "fl32 x = (if \<bar>round32 x\<bar> < 2 ^ 128 then Some (round32 x) else None)"

definition add32 :: "real \<Rightarrow> real \<Rightarrow> real option" where
  "add32 a b = fl32 (a + b)"

definition sub32 :: "real \<Rightarrow> real \<Rightarrow> real option" where
  "sub32 a b = fl32 (a - b)"

definition mul32 :: "real \<Rightarrow> real \<Rightarrow> real option" where
  "mul32 a b = fl32 (a * b)"

definition div32 :: "real \<Rightarrow> real \<Rightarrow> real option" where
  "div32 a b = (if b = 0 then None else fl32 (a / b))"

text \<open>
  \<^verbatim>\<open>powf\<close> with the exponents 2 and 3, read as the rounded power; at the knots of a built
  spline its argument is 1 and so is its value.
\<close>

definition pow32 :: "real \<Rightarrow> nat \<Rightarrow> real option" where
  "pow32 a n = fl32 (a ^ n)"

text \<open>The operations of \<^verbatim>\<open>vec2\<close>, each component rounded.\<close>

definition vec32 :: "real option \<Rightarrow> real option \<Rightarrow> vec2 option" where
  "vec32 x y = do { a \<leftarrow> x; b \<leftarrow> y; Some (Vec2 a b) }"

definition vadd32 :: "vec2 \<Rightarrow> vec2 \<Rightarrow> vec2 option" where
  "vadd32 a b = vec32 (add32 (vx a) (vx b)) (add32 (vy a) (vy b))"

definition vsub32 :: "vec2 \<Rightarrow> vec2 \<Rightarrow> vec2 option" where
  "vsub32 a b = vec32 (sub32 (vx a) (vx b)) (sub32 (vy a) (vy b))"

definition vmul32 :: "vec2 \<Rightarrow> real \<Rightarrow> vec2 option" where
  "vmul32 v f = vec32 (mul32 (vx v) f) (mul32 (vy v) f)"

definition smul32 :: "real \<Rightarrow> vec2 \<Rightarrow> vec2 option" where
  "smul32 f v = vec32 (mul32 f (vx v)) (mul32 f (vy v))"

definition vdiv32 :: "vec2 \<Rightarrow> real \<Rightarrow> vec2 option" where
  "vdiv32 v f = vec32 (div32 (vx v) f) (div32 (vy v) f)"

text \<open>\<^verbatim>\<open>Hermite\<close> and \<^verbatim>\<open>Spline::evaluate\<close> as above, every operation rounded.\<close>

definition Hermite32 :: "vec2 \<Rightarrow> vec2 \<Rightarrow> real \<Rightarrow> vec2 \<Rightarrow> vec2 \<Rightarrow> real \<Rightarrow> real \<Rightarrow> vec2 option" where
  "Hermite32 p0 v0 t0 p1 v1 t1 t =
     do {
       d \<leftarrow> sub32 t1 t0;
       n \<leftarrow> sub32 t t0;
       s \<leftarrow> div32 n d;
       let a0 = p0;
       let a1 = v0;
       b1 \<leftarrow> vsub32 p1 p0;
       b2 \<leftarrow> vmul32 b1 3;
       b3 \<leftarrow> vdiv32 b2 d;
       b4 \<leftarrow> vdiv32 b3 d;
       c1 \<leftarrow> smul32 2 v0;
       c2 \<leftarrow> vadd32 v1 c1;
       c3 \<leftarrow> vdiv32 c2 d;
       a2 \<leftarrow> vsub32 b4 c3;
       e1 \<leftarrow> vsub32 p0 p1;
       e2 \<leftarrow> vmul32 e1 2;
       d3 \<leftarrow> pow32 d 3;
       e3 \<leftarrow> vdiv32 e2 d3;
       f1 \<leftarrow> vadd32 v1 v0;
       d2 \<leftarrow> pow32 d 2;
       f2 \<leftarrow> vdiv32 f1 d2;
       a3 \<leftarrow> vadd32 e3 f2;
       r1 \<leftarrow> vmul32 a3 s;
       r2 \<leftarrow> vadd32 r1 a2;
       r3 \<leftarrow> vmul32 r2 s;
       r4 \<leftarrow> vadd32 r3 a1;
       r5 \<leftarrow> vmul32 r4 s;
       vadd32 r5 a0
     }"

text \<open>The tangent \<^verbatim>\<open>(cps_[j] - cps_[i]) / (ts_[j] - ts_[i])\<close> at a control point.\<close>

definition tangent32 :: "spline \<Rightarrow> nat \<Rightarrow> nat \<Rightarrow> vec2 option" where
  "tangent32 s j i =
     do {
       p \<leftarrow> vsub32 (cps s ! j) (cps s ! i);
       h \<leftarrow> sub32 (ts s ! j) (ts s ! i);
       vdiv32 p h
     }"

function evaluate32_from :: "spline \<Rightarrow> real \<Rightarrow> nat \<Rightarrow> vec2 option" where
  "evaluate32_from s t i =
     (if int i < int (length (cps s)) - 1 then
        (if ts s ! i \<le> t \<and> t \<le> ts s ! (i + 1) then
           do {
             v0 \<leftarrow> (if i > 0 then tangent32 s (i + 1) (i - 1) else Some (Vec2 0 0));
             v1 \<leftarrow> (if int i < int (length (cps s)) - 2 then tangent32 s (i + 2) i
                   else Some (Vec2 0 0));
             Hermite32 (cps s ! i) v0 (ts s ! i) (cps s ! (i + 1)) v1 (ts s ! (i + 1)) t
           }
         else evaluate32_from s t (i + 1))
      else Some (last (cps s)))"
  by pat_completeness auto
termination
  by (relation "measure (\<lambda>(s, t, i). length (cps s) - i)") auto

declare evaluate32_from.simps [simp del]

definition evaluate32 :: "spline \<Rightarrow> flt \<Rightarrow> vec2 option" where
  "evaluate32 s t =
     (if length (cps s) < 2 then Some (Vec2 0 0)
      else (case t of Fin r \<Rightarrow> evaluate32_from s r 0 | NaN \<Rightarrow> Some (last (cps s))))"

section \<open>The gondola (\<^verbatim>\<open>Gondola.cpp\<close>)\<close>

datatype GondolaState = Waiting | Started | Fallen

text \<open>
  The fields of the class but the two \<^verbatim>\<open>Geometry\<close> members, which only feed the
  renderer. The spline is held by pointer and may grow between two calls, so it is an
  argument of every operation.
\<close>

record gondola =
  progressAlongSpline :: flt
  velocity :: flt
  energy :: real
  position :: vec2
  rotationAngle :: flt
  state :: GondolaState

definition gondolaRadius :: real where
  "gondolaRadius = 1"

text \<open>The constructor.\<close>

definition new_gondola :: gondola where
  "new_gondola =
     \<lparr>progressAlongSpline = Fin 0, velocity = Fin 0, energy = 0, position = Vec2 0 0,
      rotationAngle = Fin 0, state = Waiting\<rparr>"

definition derivative :: "spline \<Rightarrow> flt \<Rightarrow> vec2" where
  "derivative s t =
     (let h = 1 / 1000
      in vdiv (evaluate s (fadd t (Fin h)) - evaluate s (fsub t (Fin h))) (2 * h))"

definition secondDerivative :: "spline \<Rightarrow> flt \<Rightarrow> vec2" where
  "secondDerivative s t =
     (let h = 1 / 1000
      in vdiv (evaluate s (fadd t (Fin h)) - smul 2 (evaluate s t) + evaluate s (fsub t (Fin h)))
           (h * h))"

definition start :: "spline \<Rightarrow> gondola \<Rightarrow> gondola" where
  "start s g =
     (if state g = Waiting then
        (let progress = Fin (1 / 100);
             r = evaluate s progress;
             T = normalize (derivative s progress);
             N = Vec2 (- vy T) (vx T)
         in g\<lparr>progressAlongSpline := progress,
              velocity := Fin 0,
              position := r + vmul N gondolaRadius,
              rotationAngle := Fin 0,
              energy := 40 * vy r + 1 / 2,
              state := Started\<rparr>)
      else g)"

definition GRAVITY :: real where
  "GRAVITY = 40"

definition EPSILON :: real where
  "EPSILON = 1 / 1000"

text \<open>
  The local values of \<^verbatim>\<open>Gondola::animate\<close>, each as a function of the spline and of the
  state at the call: \<^verbatim>\<open>tangent\<close>, \<^verbatim>\<open>normal\<close>, \<^verbatim>\<open>currentHeight\<close>, \<^verbatim>\<open>initialHeight\<close>, the new
  \<^verbatim>\<open>velocity_\<close>, \<^verbatim>\<open>curvature\<close> and \<^verbatim>\<open>totalForce\<close>.
\<close>

definition animate_tangent :: "spline \<Rightarrow> gondola \<Rightarrow> vec2" where
  "animate_tangent s g = derivative s (progressAlongSpline g)"

definition animate_normal :: "spline \<Rightarrow> gondola \<Rightarrow> vec2" where
  "animate_normal s g =
     (let tangent = animate_tangent s g;
          tangentLength = vlength tangent;
          normalizedTangent = vdiv tangent tangentLength
      in Vec2 (- vy normalizedTangent) (vx normalizedTangent))"

definition currentHeight :: "spline \<Rightarrow> gondola \<Rightarrow> real" where
  "currentHeight s g =
     vy (evaluate s (progressAlongSpline g) + vmul (animate_normal s g) gondolaRadius)"

definition initialHeight :: "spline \<Rightarrow> gondola \<Rightarrow> real" where
  "initialHeight s g = vy (evaluate s (Fin 0) + vmul (animate_normal s g) gondolaRadius)"

definition animate_velocity :: "spline \<Rightarrow> gondola \<Rightarrow> flt" where
  "animate_velocity s g = fsqrt ((2 * GRAVITY * (initialHeight s g - currentHeight s g)) / 2)"

definition animate_curvature :: "spline \<Rightarrow> gondola \<Rightarrow> real" where
  "animate_curvature s g =
     (let tangent = animate_tangent s g;
          secondTangent = secondDerivative s (progressAlongSpline g);
          tangentLength = vlength tangent
      in (vx tangent * vy secondTangent - vy tangent * vx secondTangent) / tangentLength ^ 3)"

definition animate_totalForce :: "spline \<Rightarrow> gondola \<Rightarrow> flt" where
  "animate_totalForce s g =
     fadd (fmul (fmul (Fin (animate_curvature s g)) (animate_velocity s g)) (animate_velocity s g))
          (Fin (GRAVITY * vy (animate_normal s g)))"

text \<open>The state after the update of progress, position and rotation.\<close>

definition animate_update :: "spline \<Rightarrow> real \<Rightarrow> gondola \<Rightarrow> gondola" where
  "animate_update s dt g =
     (let v = animate_velocity s g;
          tangentLength = vlength (animate_tangent s g)
      in g\<lparr>velocity := v,
           progressAlongSpline := fadd (progressAlongSpline g) (fdiv (fmul v (Fin dt)) (Fin tangentLength)),
           position := evaluate s (progressAlongSpline g) + vmul (animate_normal s g) gondolaRadius,
           rotationAngle := fsub (rotationAngle g) (fmul (fdiv v (Fin gondolaRadius)) (Fin dt))\<rparr>)"

text \<open>
  \<^verbatim>\<open>Gondola::animate\<close>. The result is \<open>None\<close> when the call reads the last knot of a
  spline that has no knot.
\<close>

definition animate :: "spline \<Rightarrow> real \<Rightarrow> gondola \<Rightarrow> gondola option" where
  "animate s dt g =
     (if state g \<noteq> Started then Some g
      else if vlength (animate_tangent s g) < EPSILON then Some g
      else if fless (animate_totalForce s g) (Fin 0)
        then Some (g\<lparr>velocity := animate_velocity s g, state := Fallen\<rparr>)
      else (case knots_back s of
              None \<Rightarrow> None
            | Some b \<Rightarrow>
                (let g' = animate_update s dt g
                 in Some (if fless (Fin b) (progressAlongSpline g') then g'\<lparr>state := Fallen\<rparr> else g'))))"

text \<open>A sequence of calls on one gondola, the spline held fixed.\<close>

datatype call = Start | Animate real

fun run :: "spline \<Rightarrow> call list \<Rightarrow> gondola \<Rightarrow> gondola option" where
  "run s [] g = Some g"
| "run s (Start # cs) g = run s cs (start s g)"
| "run s (Animate dt # cs) g = (case animate s dt g of None \<Rightarrow> None | Some g' \<Rightarrow> run s cs g')"

text \<open>The values of the enumeration \<^verbatim>\<open>GondolaState\<close>, in the order of its declaration.\<close>

fun state_value :: "GondolaState \<Rightarrow> nat" where
  "state_value Waiting = 0"
| "state_value Started = 1"
| "state_value Fallen = 2"

text \<open>
  The condition under which \<^verbatim>\<open>Gondola::animate\<close> reaches its last statement, which reads
  \<^verbatim>\<open>getKnots().back()\<close>: none of the three returns before it was taken.
\<close>

definition reads_last_knot :: "spline \<Rightarrow> gondola \<Rightarrow> bool" where
  "reads_last_knot s g =
     (state g = Started \<and> \<not> vlength (animate_tangent s g) < EPSILON
      \<and> \<not> fless (animate_totalForce s g) (Fin 0))"

text \<open>What a gondola shows of its state: every field but \<^verbatim>\<open>energy_\<close>.\<close>

definition visible :: "gondola \<Rightarrow> GondolaState \<times> flt \<times> vec2 \<times> flt \<times> flt" where
  "visible g = (state g, progressAlongSpline g, position g, velocity g, rotationAngle g)"

section \<open>Inputs of the examples\<close>

text \<open>
  Three splines of two points each (a level one, one straight down and one straight up),
  and a gondola that has fallen.
\<close>

definition flat_track :: spline where
  "flat_track = build [Vec2 0 0, Vec2 1 0]"

definition drop_track :: spline where
  "drop_track = build [Vec2 0 10, Vec2 0 0]"

definition climb_track :: spline where
  "climb_track = build [Vec2 0 0, Vec2 0 10]"

definition fallen_gondola :: gondola where
  "fallen_gondola = new_gondola\<lparr>state := Fallen\<rparr>"

section \<open>Properties of the spline\<close>

subsection \<open>Rounding\<close>

lemma round32_zero [simp]: "round32 0 = 0"
  by (simp add: round32_def)

lemma round32_minus: "round32 (- x) = - round32 x"
  by (simp add: round32_def Let_def sgn_minus)

lemma rne_of_int [simp]: "rne (of_int z) = z"
  by (simp add: rne_def)

lemma round32_binade:
  assumes "2 powi e \<le> \<bar>x\<bar>" and "\<bar>x\<bar> < 2 powi (e + 1)" and "- 126 \<le> e"
  shows "round32 x = sgn x * of_int (rne (\<bar>x\<bar> / 2 powi (e - 23))) * 2 powi (e - 23)"
proof -
  have pos: "0 < \<bar>x\<bar>"
    using assms(1) by (smt (verit) zero_less_power_int)
  have "(2::real) powr real_of_int e \<le> \<bar>x\<bar>" "\<bar>x\<bar> < (2::real) powr (real_of_int e + 1)"
    using assms powr_real_of_int' [of "2::real" e] powr_real_of_int' [of "2::real" "e + 1"]
    by simp_all
  then have "\<lfloor>log 2 \<bar>x\<bar>\<rfloor> = e"
    using pos by (simp add: floor_log_eq_powr_iff)
  with pos assms(3) show ?thesis
    by (simp add: round32_def Let_def max_def)
qed

lemma binade_of_nat:
  fixes n :: nat
  assumes "0 < n"
  obtains e :: nat where "2 ^ e \<le> n" and "n < 2 ^ (e + 1)"
proof -
  define e where "e = nat \<lfloor>log 2 (real n)\<rfloor>"
  have pos: "0 < real n" using assms by simp
  have "0 \<le> log 2 (real n)" using assms by simp
  then have fl: "real_of_int \<lfloor>log 2 (real n)\<rfloor> = real e"
    by (simp add: e_def)
  have "2 powr real_of_int \<lfloor>log 2 (real n)\<rfloor> \<le> real n
      \<and> real n < 2 powr (real_of_int \<lfloor>log 2 (real n)\<rfloor> + 1)"
    using floor_log_eq_powr_iff [of "real n" 2 "\<lfloor>log 2 (real n)\<rfloor>"] pos by simp
  then have "(2::real) ^ e \<le> real n" and "real n < (2::real) ^ (e + 1)"
    unfolding fl by (simp_all add: powr_realpow powr_add)
  then have "2 ^ e \<le> n" and "n < 2 ^ (e + 1)"
    by (metis of_nat_le_iff of_nat_numeral of_nat_power, metis of_nat_less_iff of_nat_numeral of_nat_power)
  then show ?thesis by (rule that)
qed

text \<open>Single precision holds every whole number up to 16777216, and not 16777217.\<close>

lemma round32_of_nat:
  fixes n :: nat
  assumes "n \<le> 16777216"
  shows "round32 (real n) = real n"
proof (cases "n = 0")
  case True
  then show ?thesis by simp
next
  case False
  then obtain e :: nat where lo: "2 ^ e \<le> n" and hi: "n < 2 ^ (e + 1)"
    using binade_of_nat [of n] by auto
  from lo assms have "(2::nat) ^ e \<le> 2 ^ 24" by simp
  then have e: "e \<le> 24" by (rule power_le_imp_le_exp [rotated]) simp
  have lo': "2 powi int e \<le> \<bar>real n\<bar>"
    using lo by (simp add: power_int_def)
  from hi have "real n < real (2 ^ (e + 1))"
    by (simp only: of_nat_less_iff)
  then have hi': "\<bar>real n\<bar> < 2 powi (int e + 1)"
    by (simp add: power_int_def nat_add_distrib)
  note r = round32_binade [OF lo' hi']
  show ?thesis
  proof (cases "e = 24")
    case True
    with lo assms have n: "n = 16777216" by simp
    show ?thesis
      using r by (simp add: n True rne_def)
  next
    case ne: False
    with e have e23: "e \<le> 23" by simp
    then have u: "(2::real) powi (int e - 23) = 1 / 2 ^ (23 - e)"
      by (simp add: power_int_def nat_diff_distrib' field_simps)
    have "\<bar>real n\<bar> / 2 powi (int e - 23) = of_int (int (n * 2 ^ (23 - e)))"
      by (simp add: u)
    then have "rne (\<bar>real n\<bar> / 2 powi (int e - 23)) = int (n * 2 ^ (23 - e))"
      by (simp only: rne_of_int)
    with r False show ?thesis
      by (simp add: u)
  qed
qed

lemma round32_past_24: "round32 (16777216 + 1) = 16777216"
  using round32_binade [of 24 "16777216 + 1"] by (simp add: rne_def)

lemma round32_one [simp]: "round32 1 = 1"
  using round32_of_nat [of 1] by simp

subsection \<open>The knots of a built spline\<close>

lemma build_Nil: "build [] = empty_spline"
  by (simp add: build_def)

lemma build_snoc: "build (ps @ [p]) = addControlPoint (build ps) p"
  by (simp add: build_def)

lemma cps_build: "cps (build ps) = ps"
  by (induction ps rule: rev_induct)
    (simp_all add: build_Nil build_snoc empty_spline_def addControlPoint_def Let_def)

text \<open>The knot of the control point of index \<open>i\<close> is \<open>i\<close> up to 16777216, and 16777216 beyond.\<close>

lemma ts_build: "ts (build ps) = map (\<lambda>i. real (min i 16777216)) [0..<length ps]"
proof (induction ps rule: rev_induct)
  case Nil
  show ?case by (simp add: build_Nil empty_spline_def)
next
  case (snoc p ps)
  show ?case
  proof (cases "ps = []")
    case True
    then show ?thesis
      by (simp add: build_def empty_spline_def addControlPoint_def)
  next
    case False
    then obtain m where m: "length ps = Suc m" by (cases ps) auto
    have lst: "last (ts (build ps)) = real (min m 16777216)"
      by (simp add: snoc m)
    have nxt: "round32 (real (min m 16777216) + 1) = real (min (Suc m) 16777216)"
    proof (cases "m < 16777216")
      case True
      have "round32 (real (Suc m)) = real (Suc m)"
        using True by (intro round32_of_nat) simp
      with True show ?thesis by (simp add: add.commute)
    next
      case False
      then show ?thesis using round32_past_24 by simp
    qed
    show ?thesis
      using False by (simp add: build_snoc cps_build addControlPoint_def Let_def lst nxt snoc m)
  qed
qed

lemma length_ts_build: "length (ts (build ps)) = length (cps (build ps))"
  by (simp add: ts_build cps_build)

lemma ts_build_nth: "i < length ps \<Longrightarrow> ts (build ps) ! i = real (min i 16777216)"
  by (simp add: ts_build)

lemma ts_build_nth_low: "i < length ps \<Longrightarrow> i \<le> 16777216 \<Longrightarrow> ts (build ps) ! i = real i"
  by (simp add: ts_build_nth)

lemma ts_build_nth_bounds:
  assumes "i < length ps"
  shows "0 \<le> ts (build ps) ! i" and "ts (build ps) ! i \<le> real i"
  using assms by (simp_all add: ts_build_nth)

lemma ts_build_short:
  assumes "length ps \<le> 16777217"
  shows "ts (build ps) = map real [0..<length ps]"
  unfolding ts_build using assms by (intro map_cong) auto

lemma knots_not_empty: "ps \<noteq> [] \<Longrightarrow> getKnots (build ps) \<noteq> []"
  by (simp add: getKnots_def ts_build)

lemma build_two: "build [p0, p1] = \<lparr>cps = [p0, p1], ts = [0, 1]\<rparr>"
  by (simp add: build_def addControlPoint_def empty_spline_def)

lemma Hermite_left: "Hermite p0 v0 t0 p1 v1 t1 t0 = p0"
  by (cases p0) (simp add: Hermite_def Let_def vmul_def plus_vec2_def)

lemma Hermite_right: "Hermite p0 v0 t0 p1 v1 (t0 + 1) (t0 + 1) = p1"
  by (cases p0; cases p1; cases v0; cases v1)
    (simp add: Hermite_def Let_def vmul_def vdiv_def smul_def plus_vec2_def minus_vec2_def)

lemma evaluate_from_skip:
  assumes "\<And>j. i \<le> j \<Longrightarrow> j < k \<Longrightarrow> \<not> (ts s ! j \<le> t \<and> t \<le> ts s ! (j + 1))"
    and "i \<le> k"
  shows "evaluate_from s t i = evaluate_from s t k"
  using assms
proof (induction "k - i" arbitrary: i)
  case 0
  then show ?case by simp
next
  case (Suc d)
  then have "i < k" by simp
  have no: "\<not> (ts s ! i \<le> t \<and> t \<le> ts s ! (i + 1))"
    using Suc.prems(1)[of i] \<open>i < k\<close> by simp
  have step: "evaluate_from s t i = evaluate_from s t (i + 1)"
  proof (cases "int i < int (length (cps s)) - 1")
    case True
    with no show ?thesis
      by (subst evaluate_from.simps) (simp only: if_True if_False)
  next
    case False
    then show ?thesis
      by (subst evaluate_from.simps, subst (2) evaluate_from.simps) simp
  qed
  have "evaluate_from s t (i + 1) = evaluate_from s t k"
    using Suc.hyps(2) Suc.prems \<open>i < k\<close> by (intro Suc.hyps(1)) auto
  with step show ?case by simp
qed

lemma evaluate_from_end: "length (cps s) - 1 \<le> i \<Longrightarrow> evaluate_from s t i = last (cps s)"
  by (subst evaluate_from.simps) auto

lemma evaluate_from_none:
  assumes "\<And>j. j < length (cps s) - 1 \<Longrightarrow> \<not> (ts s ! j \<le> t \<and> t \<le> ts s ! (j + 1))"
  shows "evaluate_from s t 0 = last (cps s)"
proof -
  have "evaluate_from s t 0 = evaluate_from s t (length (cps s) - 1)"
    using assms by (intro evaluate_from_skip) auto
  then show ?thesis by (simp add: evaluate_from_end)
qed

lemma evaluate_below:
  assumes "2 \<le> length ps" and "t < 0"
  shows "evaluate (build ps) (Fin t) = last ps"
proof -
  have "evaluate_from (build ps) t 0 = last (cps (build ps))"
  proof (rule evaluate_from_none)
    fix j
    assume "j < length (cps (build ps)) - 1"
    then have "j < length ps" by (simp add: cps_build)
    then have "0 \<le> ts (build ps) ! j" by (rule ts_build_nth_bounds)
    with assms(2) show "\<not> (ts (build ps) ! j \<le> t \<and> t \<le> ts (build ps) ! (j + 1))"
      by simp
  qed
  with assms show ?thesis by (simp add: evaluate_def cps_build)
qed

lemma evaluate_above:
  assumes "2 \<le> length ps" and "real (length ps - 1) < t"
  shows "evaluate (build ps) (Fin t) = last ps"
proof -
  have "evaluate_from (build ps) t 0 = last (cps (build ps))"
  proof (rule evaluate_from_none)
    fix j
    assume "j < length (cps (build ps)) - 1"
    then have j: "j + 1 < length ps" by (simp add: cps_build)
    then have "ts (build ps) ! (j + 1) \<le> real (j + 1)" by (rule ts_build_nth_bounds)
    also from j have "real (j + 1) \<le> real (length ps - 1)" by simp
    finally show "\<not> (ts (build ps) ! j \<le> t \<and> t \<le> ts (build ps) ! (j + 1))"
      using assms(2) by simp
  qed
  with assms show ?thesis by (simp add: evaluate_def cps_build)
qed

lemma evaluate_from_hit:
  assumes "i + 1 < length (cps s)" and "ts s ! i \<le> t" and "t \<le> ts s ! (i + 1)"
  shows "evaluate_from s t i =
    Hermite (cps s ! i)
      (if i > 0 then vdiv (cps s ! (i + 1) - cps s ! (i - 1)) (ts s ! (i + 1) - ts s ! (i - 1))
       else Vec2 0 0)
      (ts s ! i) (cps s ! (i + 1))
      (if int i < int (length (cps s)) - 2
       then vdiv (cps s ! (i + 2) - cps s ! i) (ts s ! (i + 2) - ts s ! i) else Vec2 0 0)
      (ts s ! (i + 1)) t"
proof -
  from assms(1) have "int i < int (length (cps s)) - 1" by simp
  with assms(2,3) show ?thesis
    by (subst evaluate_from.simps) (simp only: if_True Let_def simp_thms)
qed

lemma evaluate_from_knot:
  assumes "2 \<le> length ps" and "k < length ps" and "k \<le> 16777216"
  shows "evaluate_from (build ps) (real k) 0 = ps ! k"
proof (cases k)
  case 0
  from assms(1) have len: "0 + 1 < length (cps (build ps))"
    by (simp add: cps_build)
  from assms(1) have "0 < length ps" and "0 + 1 < length ps" by linarith+
  then have t0: "ts (build ps) ! 0 = 0" and t1: "ts (build ps) ! Suc 0 = 1"
    using ts_build_nth_low [of 0 ps] ts_build_nth_low [of "0 + 1" ps] by simp_all
  have "evaluate_from (build ps) 0 0 = cps (build ps) ! 0"
    by (subst evaluate_from_hit [OF len]) (simp_all add: t0 t1 Hermite_left)
  with 0 show ?thesis by (simp add: cps_build)
next
  case (Suc m)
  have skip: "evaluate_from (build ps) (real k) 0 = evaluate_from (build ps) (real k) m"
  proof (rule evaluate_from_skip)
    fix j
    assume "0 \<le> j" and j: "j < m"
    with assms(2) Suc have "j + 1 < length ps" by simp
    then have "ts (build ps) ! (j + 1) \<le> real (j + 1)" by (rule ts_build_nth_bounds)
    also from j Suc have "real (j + 1) < real k" by simp
    finally show "\<not> (ts (build ps) ! j \<le> real k \<and> real k \<le> ts (build ps) ! (j + 1))"
      by simp
  qed simp
  from assms(2) Suc have len: "m + 1 < length (cps (build ps))"
    by (simp add: cps_build)
  have lo: "ts (build ps) ! m = real m" and hi: "ts (build ps) ! Suc m = real m + 1"
    using assms(2,3) Suc ts_build_nth_low [of m ps] ts_build_nth_low [of "Suc m" ps]
    by simp_all
  have "evaluate_from (build ps) (real m + 1) m = cps (build ps) ! (m + 1)"
    by (subst evaluate_from_hit [OF len]) (simp_all add: lo hi Hermite_right)
  with skip Suc show ?thesis by (simp add: cps_build add.commute)
qed

text \<open>
  C7, amended. From the empty spline, the knot of the control point of index \<open>i\<close> (the
  first has index 0) is \<open>i\<close> up to 16777216, and 16777216 for every later point, so the knots
  never decrease. After at most 16777217 calls of \<^verbatim>\<open>addControlPoint\<close> the knots are 0, 1, 2,
  ... in the order of insertion: they increase strictly, the first knot is 0 and the last
  is the parameter of the last point added; and a point added to fewer than 16777217 points
  gets 0 when it is the first, and the greatest knot so far plus 1 otherwise.
\<close>

theorem knots_count_up:
  "getKnots (build ps) = map (\<lambda>i. real (min i 16777216)) [0..<length ps]
   \<and> sorted (getKnots (build ps))
   \<and> (length ps \<le> 16777217 \<longrightarrow>
        getKnots (build ps) = map real [0..<length ps]
        \<and> sorted_wrt (<) (getKnots (build ps))
        \<and> (ps \<noteq> [] \<longrightarrow> hd (getKnots (build ps)) = 0
              \<and> last (getKnots (build ps)) = real (length ps) - 1)
        \<and> (length ps < 16777217 \<longrightarrow>
             getKnots (build (ps @ [p])) =
               getKnots (build ps)
                 @ [if ps = [] then 0 else Max (set (getKnots (build ps))) + 1]))"
proof -
  have closed: "getKnots (build ps) = map (\<lambda>i. real (min i 16777216)) [0..<length ps]"
    by (simp add: getKnots_def ts_build)
  have "sorted_wrt (\<lambda>i j. real (min i 16777216) \<le> real (min j 16777216)) [0..<length ps]"
    by (rule sorted_wrt_mono_rel [of _ "(<)"]) (simp_all add: min_def)
  then have mono: "sorted (getKnots (build ps))"
    by (simp add: closed sorted_map)
  have sorted: "sorted_wrt (<) (map real [0..<length ps])"
    by (simp add: sorted_wrt_map)
  have mx: "Max (set (map real [0..<length ps])) = real (length ps) - 1" if "ps \<noteq> []"
  proof (rule Max_eqI)
    show "finite (set (map real [0..<length ps]))" by simp
    show "y \<le> real (length ps) - 1" if "y \<in> set (map real [0..<length ps])" for y
      using that by auto
    from \<open>ps \<noteq> []\<close> have "length ps - 1 < length ps" by (cases ps) simp_all
    moreover from \<open>ps \<noteq> []\<close> have "real (length ps - 1) = real (length ps) - 1"
      by (cases ps) simp_all
    ultimately show "real (length ps) - 1 \<in> set (map real [0..<length ps])"
      by (auto simp: image_iff intro!: bexI [of _ "length ps - 1"])
  qed
  have ends: "hd (map real [0..<length ps]) = 0
      \<and> last (map real [0..<length ps]) = real (length ps) - 1" if "ps \<noteq> []"
  proof -
    from that have pos: "0 < length ps" by simp
    from that have "real (length ps - 1) = real (length ps) - 1"
      by (cases ps) simp_all
    with pos show ?thesis
      by (simp add: hd_map last_map)
  qed
  have grow: "map real [0..<length (ps @ [p])] =
      map real [0..<length ps] @ [if ps = [] then 0 else Max (set (map real [0..<length ps])) + 1]"
    using mx by simp
  have k: "getKnots (build qs) = map real [0..<length qs]" if "length qs \<le> 16777217" for qs
    using that by (simp add: getKnots_def ts_build_short)
  have short: "getKnots (build ps) = map real [0..<length ps]
        \<and> sorted_wrt (<) (getKnots (build ps))
        \<and> (ps \<noteq> [] \<longrightarrow> hd (getKnots (build ps)) = 0
              \<and> last (getKnots (build ps)) = real (length ps) - 1)
        \<and> (length ps < 16777217 \<longrightarrow>
             getKnots (build (ps @ [p])) =
               getKnots (build ps)
                 @ [if ps = [] then 0 else Max (set (getKnots (build ps))) + 1])"
    if len: "length ps \<le> 16777217"
  proof -
    have more: "getKnots (build (ps @ [p])) = map real [0..<length (ps @ [p])]"
      if "length ps < 16777217"
      using that by (intro k) simp
    show ?thesis
      unfolding k [OF len] using sorted grow ends more by metis
  qed
  from closed mono short show ?thesis by blast
qed

theorem knots_count_up_witness:
  "length [Vec2 0 10, Vec2 5 0, Vec2 10 10] \<le> 16777217
   \<and> getKnots (build [Vec2 0 10, Vec2 5 0, Vec2 10 10]) = [0, 1, 2]
   \<and> sorted_wrt (<) (getKnots (build [Vec2 0 10, Vec2 5 0, Vec2 10 10]))
   \<and> getKnots (build ([Vec2 0 10, Vec2 5 0, Vec2 10 10] @ [Vec2 12 0])) = [0, 1, 2] @ [3]
   \<and> hd (getKnots (build [Vec2 0 10, Vec2 5 0, Vec2 10 10])) = 0
   \<and> last (getKnots (build [Vec2 0 10, Vec2 5 0, Vec2 10 10])) = 2"
  using knots_count_up [of "[Vec2 0 10, Vec2 5 0, Vec2 10 10]" "Vec2 12 0"]
  by simp

text \<open>
  C7 fails from the 16777218th control point on: the knot of the point of index 16777217
  is 16777216, the knot of the point before it, and not that knot plus 1; the knots do not
  increase strictly. In single precision the sum of 16777216 and 1 is 16777216.
\<close>

theorem knots_stop_counting:
  "length (cps (build (replicate 16777218 (Vec2 0 0)))) = 16777218
   \<and> getKnots (build (replicate 16777218 (Vec2 0 0))) ! 16777216 = 16777216
   \<and> getKnots (build (replicate 16777218 (Vec2 0 0))) ! 16777217 = 16777216
   \<and> \<not> sorted_wrt (<) (getKnots (build (replicate 16777218 (Vec2 0 0))))"
proof -
  define ps where "ps = replicate 16777218 (Vec2 0 0)"
  have len: "length ps = 16777218"
    by (simp add: ps_def)
  have a: "getKnots (build ps) ! 16777216 = 16777216"
    using ts_build_nth [of 16777216 ps] by (simp add: getKnots_def len)
  have b: "getKnots (build ps) ! 16777217 = 16777216"
    using ts_build_nth [of 16777217 ps] by (simp add: getKnots_def len)
  have "\<not> sorted_wrt (<) (getKnots (build ps))"
  proof
    assume "sorted_wrt (<) (getKnots (build ps))"
    moreover have "(16777216::nat) < 16777217" by simp
    moreover have "16777217 < length (getKnots (build ps))"
      by (simp add: getKnots_def length_ts_build cps_build len)
    ultimately have "getKnots (build ps) ! 16777216 < getKnots (build ps) ! 16777217"
      by (rule sorted_wrt_nth_less)
    with a b show False by simp
  qed
  with a b len show ?thesis
    by (simp add: cps_build ps_def [symmetric])
qed

subsection \<open>The curve at the knots and outside them\<close>

lemma fl32_Some: "round32 x = y \<Longrightarrow> \<bar>y\<bar> < 2 ^ 128 \<Longrightarrow> fl32 x = Some y"
  by (simp add: fl32_def)

lemma fl32_zero [simp]: "fl32 0 = Some 0"
  by (simp add: fl32_def)

lemma fl32_one [simp]: "fl32 1 = Some 1"
  by (simp add: fl32_def)

lemma tenth: "fl32 (13421773 / 134217728) = Some (13421773 / 134217728)"
  using round32_binade [of "- 4" "13421773 / 134217728"]
  by (intro fl32_Some) (simp_all add: rne_def power_int_minus)

lemma three_tenths: "fl32 (40265319 / 134217728) = Some (5033165 / 16777216)"
  using round32_binade [of "- 2" "40265319 / 134217728"]
  by (intro fl32_Some) (simp_all add: rne_def power_int_minus)

lemma near_three_tenths: "fl32 (5033165 / 16777216) = Some (5033165 / 16777216)"
  using round32_binade [of "- 2" "5033165 / 16777216"]
  by (intro fl32_Some) (simp_all add: rne_def power_int_minus)

lemma minus_tenth: "fl32 (- (13421773 / 134217728)) = Some (- (13421773 / 134217728))"
  using round32_binade [of "- 4" "- (13421773 / 134217728)"]
  by (intro fl32_Some) (simp_all add: rne_def power_int_minus)

lemma minus_two_tenths: "fl32 (- (13421773 / 67108864)) = Some (- (13421773 / 67108864))"
  using round32_binade [of "- 3" "- (13421773 / 67108864)"]
  by (intro fl32_Some) (simp_all add: rne_def power_int_minus)

lemma sum_near_tenth: "fl32 (6710887 / 67108864) = Some (6710887 / 67108864)"
  using round32_binade [of "- 4" "6710887 / 67108864"]
  by (intro fl32_Some) (simp_all add: rne_def power_int_minus)

lemma Hermite32_tenth:
  "Hermite32 (Vec2 0 0) (Vec2 0 0) 0 (Vec2 (13421773 / 134217728) 0) (Vec2 0 0) 1 1
     = Some (Vec2 (6710887 / 67108864) 0)"
  by (simp add: Hermite32_def Let_def vec32_def vadd32_def vsub32_def vmul32_def smul32_def
      vdiv32_def add32_def sub32_def mul32_def div32_def pow32_def
      tenth three_tenths near_three_tenths minus_tenth minus_two_tenths sum_near_tenth)

text \<open>
  C4 fails in single precision: with the control points (0, 0) and (0.1, 0), the second
  being the \<^verbatim>\<open>float\<close> nearest to 0.1, \<^verbatim>\<open>evaluate\<close> at the knot 1 of the second point
  returns a first component one unit in the last place above it. The product by 3 in the
  coefficient \<^verbatim>\<open>a2\<close> is rounded, and the sum of the coefficients keeps the error.
\<close>

theorem evaluate32_misses_knot:
  "getKnots (build [Vec2 0 0, Vec2 (13421773 / 134217728) 0]) ! 1 = 1
   \<and> cps (build [Vec2 0 0, Vec2 (13421773 / 134217728) 0]) ! 1 = Vec2 (13421773 / 134217728) 0
   \<and> fl32 (13421773 / 134217728) = Some (13421773 / 134217728)
   \<and> evaluate32 (build [Vec2 0 0, Vec2 (13421773 / 134217728) 0]) (Fin 1)
       = Some (Vec2 (6710887 / 67108864) 0)
   \<and> Vec2 (6710887 / 67108864) 0 \<noteq> Vec2 (13421773 / 134217728) 0"
proof -
  have "evaluate32_from (build [Vec2 0 0, Vec2 (13421773 / 134217728) 0]) 1 0
      = Some (Vec2 (6710887 / 67108864) 0)"
    by (subst evaluate32_from.simps) (simp add: build_two Hermite32_tenth)
  then show ?thesis
    by (simp add: evaluate32_def getKnots_def build_two tenth)
qed

text \<open>
  C4, amended. In exact arithmetic, \<^verbatim>\<open>evaluate\<close> on a spline built from at least two points,
  at the knot of the control point of index \<open>k\<close>, is the control point of index \<open>k\<close> when \<open>k\<close>
  is at most 16777216, and the control point of index 16777216 otherwise: the knot of every
  later point is 16777216 again.
\<close>

theorem evaluate_at_knot:
  assumes "2 \<le> length ps" and "k < length ps"
  shows "getKnots (build ps) ! k = real (min k 16777216)
    \<and> evaluate (build ps) (Fin (getKnots (build ps) ! k)) = cps (build ps) ! min k 16777216"
proof -
  have knot: "getKnots (build ps) ! k = real (min k 16777216)"
    using assms(2) by (simp add: getKnots_def ts_build_nth)
  from assms(2) have "min k 16777216 < length ps" and "min k 16777216 \<le> 16777216"
    by simp_all
  with assms(1) have "evaluate_from (build ps) (real (min k 16777216)) 0 = ps ! min k 16777216"
    by (intro evaluate_from_knot)
  with assms(1) knot show ?thesis
    by (simp add: evaluate_def cps_build)
qed

theorem evaluate_at_knot_witness:
  "2 \<le> length [Vec2 0 10, Vec2 5 0, Vec2 10 10]
   \<and> (1::nat) < length [Vec2 0 10, Vec2 5 0, Vec2 10 10]
   \<and> getKnots (build [Vec2 0 10, Vec2 5 0, Vec2 10 10]) ! 1 = 1
   \<and> cps (build [Vec2 0 10, Vec2 5 0, Vec2 10 10]) ! 1 = Vec2 5 0
   \<and> evaluate (build [Vec2 0 10, Vec2 5 0, Vec2 10 10]) (Fin 1) = Vec2 5 0"
  using evaluate_at_knot [of "[Vec2 0 10, Vec2 5 0, Vec2 10 10]" 1]
  by (simp add: cps_build getKnots_def ts_build_nth)

text \<open>
  C1, at the points (0, 10) and (5, 0), whose knots are 0 and 1. At the parameter -1, below
  the first knot, \<^verbatim>\<open>evaluate\<close> returns the last control point (5, 0) and not the first; at
  the parameter 2, above the last knot, it returns the last control point.
\<close>

theorem evaluate_below_first_knot:
  "getKnots (build [Vec2 0 10, Vec2 5 0]) = [0, 1]
   \<and> cps (build [Vec2 0 10, Vec2 5 0]) = [Vec2 0 10, Vec2 5 0]
   \<and> evaluate (build [Vec2 0 10, Vec2 5 0]) (Fin (- 1)) = Vec2 5 0
   \<and> evaluate (build [Vec2 0 10, Vec2 5 0]) (Fin 2) = Vec2 5 0"
  using evaluate_below [of "[Vec2 0 10, Vec2 5 0]" "- 1"]
    evaluate_above [of "[Vec2 0 10, Vec2 5 0]" 2]
  by (simp add: getKnots_def ts_build cps_build)

section \<open>Properties of the gondola\<close>

subsection \<open>Calls outside their state, and the stored energy\<close>

lemma start_not_Waiting: "state g \<noteq> Waiting \<Longrightarrow> start s g = g"
  by (simp add: start_def)

lemma animate_not_Started: "state g \<noteq> Started \<Longrightarrow> animate s dt g = Some g"
  by (simp add: animate_def)

lemma run_Fallen: "state g = Fallen \<Longrightarrow> run s cs g = Some g"
proof (induction cs)
  case Nil
  show ?case by simp
next
  case (Cons c cs)
  then show ?case
    by (cases c) (simp_all add: start_not_Waiting animate_not_Started)
qed

lemma start_state_value: "state_value (state g) \<le> state_value (state (start s g))"
  by (simp add: start_def Let_def)

lemma animate_state_value:
  "animate s dt g = Some g' \<Longrightarrow> state_value (state g) \<le> state_value (state g')"
  by (auto simp add: animate_def animate_update_def Let_def split: if_splits option.splits)

lemma run_state_value:
  "run s cs g = Some g' \<Longrightarrow> state_value (state g) \<le> state_value (state g')"
proof (induction cs arbitrary: g)
  case Nil
  then show ?case by simp
next
  case (Cons c cs)
  show ?case
  proof (cases c)
    case Start
    with Cons.prems have "run s cs (start s g) = Some g'" by simp
    then have "state_value (state (start s g)) \<le> state_value (state g')"
      by (rule Cons.IH)
    with start_state_value [of g s] show ?thesis by simp
  next
    case (Animate dt)
    with Cons.prems obtain g1 where a: "animate s dt g = Some g1" and r: "run s cs g1 = Some g'"
      by (auto split: option.splits)
    from r have "state_value (state g1) \<le> state_value (state g')" by (rule Cons.IH)
    with animate_state_value [OF a] show ?thesis by simp
  qed
qed

text \<open>
  C6. \<^verbatim>\<open>start\<close> changes nothing unless the gondola is waiting, and \<^verbatim>\<open>animate\<close> changes
  nothing unless it has started; so a gondola that has fallen stays as it is under every
  sequence of calls, and along every sequence of calls the state only moves forward in the
  order Waiting, Started, Fallen.
\<close>

theorem calls_outside_phase_change_nothing:
  "(state g \<noteq> Waiting \<longrightarrow> start s g = g)
   \<and> (state g \<noteq> Started \<longrightarrow> animate s dt g = Some g)
   \<and> (state g = Fallen \<longrightarrow> run s cs g = Some g)
   \<and> (run s cs g = Some g' \<longrightarrow> state_value (state g) \<le> state_value (state g'))"
  using start_not_Waiting animate_not_Started run_Fallen run_state_value by blast

theorem calls_outside_phase_change_nothing_witness:
  "state fallen_gondola \<noteq> Waiting \<and> state fallen_gondola \<noteq> Started
   \<and> state fallen_gondola = Fallen
   \<and> start (build [Vec2 0 10, Vec2 5 0]) fallen_gondola = fallen_gondola
   \<and> animate (build [Vec2 0 10, Vec2 5 0]) (1 / 100) fallen_gondola = Some fallen_gondola
   \<and> run (build [Vec2 0 10, Vec2 5 0]) [Start, Animate (1 / 100), Start] fallen_gondola = Some fallen_gondola
   \<and> state_value (state fallen_gondola) \<le> state_value (state fallen_gondola)"
  using calls_outside_phase_change_nothing
    [of fallen_gondola "build [Vec2 0 10, Vec2 5 0]" "1 / 100" "[Start, Animate (1 / 100), Start]"
      fallen_gondola]
  by (simp add: fallen_gondola_def new_gondola_def)

lemma animate_tangent_energy [simp]: "animate_tangent s (g\<lparr>energy := e\<rparr>) = animate_tangent s g"
  by (simp add: animate_tangent_def)

lemma animate_normal_energy [simp]: "animate_normal s (g\<lparr>energy := e\<rparr>) = animate_normal s g"
  by (simp add: animate_normal_def)

lemma animate_velocity_energy [simp]: "animate_velocity s (g\<lparr>energy := e\<rparr>) = animate_velocity s g"
  by (simp add: animate_velocity_def currentHeight_def initialHeight_def)

lemma animate_totalForce_energy [simp]:
  "animate_totalForce s (g\<lparr>energy := e\<rparr>) = animate_totalForce s g"
  by (simp add: animate_totalForce_def animate_curvature_def)

lemma animate_update_energy [simp]:
  "animate_update s dt (g\<lparr>energy := e\<rparr>) = (animate_update s dt g)\<lparr>energy := e\<rparr>"
  by (simp add: animate_update_def Let_def)

lemma animate_energy:
  "animate s dt (g\<lparr>energy := e\<rparr>) = map_option (\<lambda>g'. g'\<lparr>energy := e\<rparr>) (animate s dt g)"
  by (simp add: animate_def Let_def split: option.splits)

lemma start_energy_Waiting: "state g = Waiting \<Longrightarrow> start s (g\<lparr>energy := e\<rparr>) = start s g"
  by (simp add: start_def Let_def)

lemma run_energy:
  "map_option visible (run s cs (g\<lparr>energy := e\<rparr>)) = map_option visible (run s cs g)"
proof (induction cs arbitrary: g)
  case Nil
  show ?case by (simp add: visible_def)
next
  case (Cons c cs)
  show ?case
  proof (cases c)
    case Start
    show ?thesis
    proof (cases "state g = Waiting")
      case True
      with Start show ?thesis by (simp add: start_energy_Waiting)
    next
      case False
      with Cons.IH [of g] Start show ?thesis by (simp add: start_not_Waiting)
    qed
  next
    case (Animate dt)
    show ?thesis
    proof (cases "animate s dt g")
      case None
      with Animate show ?thesis by (simp add: animate_energy)
    next
      case (Some g1)
      with Cons.IH [of g1] Animate show ?thesis by (simp add: animate_energy)
    qed
  qed
qed

text \<open>
  C9. \<^verbatim>\<open>start\<close> stores 40 times the height of the curve at its first parameter, plus 1/2, in
  \<^verbatim>\<open>energy_\<close>, and nothing reads the field: two gondolas that differ only in it show the
  same state, progress, position, velocity and rotation after every sequence of calls.
\<close>

theorem energy_never_read:
  "(state g = Waiting \<longrightarrow>
      energy (start s g) = 40 * vy (evaluate s (Fin (1 / 100))) + 1 / 2)
   \<and> map_option visible (run s cs (g\<lparr>energy := e\<rparr>)) = map_option visible (run s cs g)"
  by (simp add: run_energy) (simp add: start_def Let_def)

theorem energy_never_read_witness:
  "state new_gondola = Waiting
   \<and> energy (start (build [Vec2 0 10, Vec2 5 0]) new_gondola)
       = 40 * vy (evaluate (build [Vec2 0 10, Vec2 5 0]) (Fin (1 / 100))) + 1 / 2
   \<and> map_option visible
        (run (build [Vec2 0 10, Vec2 5 0]) [Start, Animate (1 / 100)] (new_gondola\<lparr>energy := 7\<rparr>))
       = map_option visible (run (build [Vec2 0 10, Vec2 5 0]) [Start, Animate (1 / 100)] new_gondola)"
  using energy_never_read [of new_gondola "build [Vec2 0 10, Vec2 5 0]" "[Start, Animate (1 / 100)]" 7]
  by (simp add: new_gondola_def)

lemma evaluate_few: "length (cps s) < 2 \<Longrightarrow> evaluate s t = Vec2 0 0"
  by (simp add: evaluate_def)

lemma derivative_few: "length (cps s) < 2 \<Longrightarrow> derivative s t = Vec2 0 0"
  by (simp add: derivative_def evaluate_few minus_vec2_def vdiv_def Let_def)

lemma vlength_zero: "vlength (Vec2 0 0) = 0"
  by (simp add: vlength_def)

lemma evaluate_NaN: "evaluate s NaN = (if length (cps s) < 2 then Vec2 0 0 else last (cps s))"
  by (simp add: evaluate_def)

lemma derivative_NaN: "derivative s NaN = Vec2 0 0"
  by (simp add: derivative_def evaluate_NaN fadd_def fsub_def minus_vec2_def vdiv_def Let_def)

lemma guard_few: "length (cps s) < 2 \<Longrightarrow> vlength (animate_tangent s g) < EPSILON"
  by (simp add: animate_tangent_def derivative_few vlength_zero EPSILON_def)

lemma guard_NaN: "progressAlongSpline g = NaN \<Longrightarrow> vlength (animate_tangent s g) < EPSILON"
  by (simp add: animate_tangent_def derivative_NaN vlength_zero EPSILON_def)

lemma animate_few: "length (cps s) < 2 \<Longrightarrow> animate s dt g = Some g"
  by (simp add: animate_def guard_few)

lemma knots_back_build:
  "ps \<noteq> [] \<Longrightarrow> knots_back (build ps) = Some (last (getKnots (build ps)))"
  by (simp add: knots_back_def knots_not_empty)

lemma animate_build_defined: "animate (build ps) dt g \<noteq> None"
proof (cases "length ps < 2")
  case True
  then show ?thesis by (simp add: animate_few cps_build)
next
  case False
  then have "ps \<noteq> []" by auto
  then show ?thesis by (simp add: animate_def knots_back_build Let_def)
qed

subsection \<open>The guard on the tangent and the two ways to fall\<close>

lemma animate_None_iff: "animate s dt g = None \<longleftrightarrow> reads_last_knot s g \<and> getKnots s = []"
  by (simp add: animate_def reads_last_knot_def knots_back_def Let_def)

lemma guard_passes_two_points:
  "\<not> vlength (animate_tangent s g) < EPSILON \<Longrightarrow> 2 \<le> length (cps s)"
  using guard_few [of s g] by (cases "length (cps s) < 2") simp_all

lemma guard_passes_Fin:
  "\<not> vlength (animate_tangent s g) < EPSILON \<Longrightarrow> \<exists>p. progressAlongSpline g = Fin p"
  using guard_NaN [of g s] by (cases "progressAlongSpline g") simp_all

lemma run_few: "length (cps s) < 2 \<Longrightarrow> state g \<noteq> Waiting \<Longrightarrow> run s cs g = Some g"
proof (induction cs)
  case Nil
  show ?case by simp
next
  case (Cons c cs)
  then show ?case
    by (cases c) (simp_all add: start_not_Waiting animate_few)
qed

lemma start_Waiting_state: "state g = Waiting \<Longrightarrow> state (start s g) = Started"
  by (simp add: start_def Let_def)

text \<open>
  C10. \<^verbatim>\<open>start\<close> checks no spline: a waiting gondola starts whatever the number of control
  points. With fewer than two points \<^verbatim>\<open>evaluate\<close> is the origin everywhere, the tangent is
  zero, the guard on its length returns, and every later call leaves the gondola as it is.
  So the last knot is only read on a spline of at least two points, whose knots are not
  empty, and \<^verbatim>\<open>animate\<close> on a built spline never reads the last knot of an empty vector.
\<close>

theorem start_unchecked_steps_skip:
  "(state g = Waiting \<longrightarrow> state (start s g) = Started)
   \<and> (length (cps s) < 2 \<longrightarrow>
        evaluate s t = Vec2 0 0
        \<and> animate_tangent s g = Vec2 0 0
        \<and> vlength (animate_tangent s g) < EPSILON
        \<and> animate s dt g = Some g
        \<and> (state g = Waiting \<longrightarrow> run s (Start # cs) g = Some (start s g)))
   \<and> (reads_last_knot (build ps) g \<longrightarrow>
        2 \<le> length (cps (build ps)) \<and> getKnots (build ps) \<noteq> [])
   \<and> animate (build ps) dt g \<noteq> None"
proof -
  have a: "state g = Waiting \<longrightarrow> state (start s g) = Started"
    by (simp add: start_Waiting_state)
  have b: "run s (Start # cs) g = Some (start s g)" if "length (cps s) < 2" "state g = Waiting"
    using that run_few [of s "start s g" cs] by (simp add: start_Waiting_state)
  have c: "2 \<le> length (cps (build ps)) \<and> getKnots (build ps) \<noteq> []"
    if "reads_last_knot (build ps) g"
  proof -
    from that have "\<not> vlength (animate_tangent (build ps) g) < EPSILON"
      by (simp add: reads_last_knot_def)
    then have two: "2 \<le> length (cps (build ps))"
      by (rule guard_passes_two_points)
    then have "ps \<noteq> []" by (auto simp add: cps_build)
    with two show ?thesis by (simp add: knots_not_empty)
  qed
  show ?thesis
    using a b c
    by (simp add: evaluate_few animate_tangent_def derivative_few vlength_zero EPSILON_def
        animate_few animate_build_defined)
qed

text \<open>
  C2. A started gondola whose tangent passes the guard falls in one step exactly when the
  total force is below zero or the new progress is beyond the last knot. When the force is
  below zero, progress, position and rotation stay as they were; otherwise (at force zero
  too, the comparison being strict) they are updated, and the gondola stays started unless
  the new progress is beyond the last knot.
\<close>

theorem departure_exactly_on_force_or_end:
  assumes "state g = Started" and "\<not> vlength (animate_tangent (build ps) g) < EPSILON"
  shows "\<exists>g'. animate (build ps) dt g = Some g'
    \<and> (state g' = Fallen \<longleftrightarrow>
         fless (animate_totalForce (build ps) g) (Fin 0)
         \<or> fless (Fin (last (getKnots (build ps)))) (progressAlongSpline g'))
    \<and> (fless (animate_totalForce (build ps) g) (Fin 0) \<longrightarrow>
         progressAlongSpline g' = progressAlongSpline g
         \<and> position g' = position g
         \<and> rotationAngle g' = rotationAngle g)
    \<and> (\<not> fless (animate_totalForce (build ps) g) (Fin 0) \<longrightarrow>
         progressAlongSpline g' =
           fadd (progressAlongSpline g)
             (fdiv (fmul (animate_velocity (build ps) g) (Fin dt))
                (Fin (vlength (animate_tangent (build ps) g))))
         \<and> position g' =
             evaluate (build ps) (progressAlongSpline g)
               + vmul (animate_normal (build ps) g) gondolaRadius
         \<and> rotationAngle g' =
             fsub (rotationAngle g)
               (fmul (fdiv (animate_velocity (build ps) g) (Fin gondolaRadius)) (Fin dt)))
    \<and> (animate_totalForce (build ps) g = Fin 0 \<longrightarrow>
         \<not> fless (animate_totalForce (build ps) g) (Fin 0)
         \<and> (state g' = Started \<longleftrightarrow>
              \<not> fless (Fin (last (getKnots (build ps)))) (progressAlongSpline g')))"
proof -
  from assms(2) have "2 \<le> length (cps (build ps))" by (rule guard_passes_two_points)
  then have "ps \<noteq> []" by (auto simp add: cps_build)
  then have kb: "knots_back (build ps) = Some (last (getKnots (build ps)))"
    by (rule knots_back_build)
  show ?thesis
  proof (cases "fless (animate_totalForce (build ps) g) (Fin 0)")
    case True
    with assms show ?thesis by (auto simp add: animate_def)
  next
    case False
    with assms kb show ?thesis
      by (auto simp add: animate_def animate_update_def Let_def)
  qed
qed

subsection \<open>Splines of two points\<close>

lemma evaluate_two_points:
  assumes "0 \<le> t" and "t \<le> 1"
  shows "evaluate (build [p0, p1]) (Fin t) =
    Vec2 (vx p0 + (vx p1 - vx p0) * (3 * t ^ 2 - 2 * t ^ 3))
         (vy p0 + (vy p1 - vy p0) * (3 * t ^ 2 - 2 * t ^ 3))"
proof -
  have "evaluate_from (build [p0, p1]) t 0 = Hermite p0 (Vec2 0 0) 0 p1 (Vec2 0 0) 1 t"
    using assms by (subst evaluate_from_hit) (simp_all add: build_two)
  then show ?thesis
    by (simp add: evaluate_def build_two Hermite_def Let_def vmul_def vdiv_def smul_def
        plus_vec2_def minus_vec2_def power2_eq_square power3_eq_cube algebra_simps)
qed

lemma cubic_central_difference:
  fixes a b p :: real
  shows "((a + (b - a) * (3 * (p + 1 / 1000) ^ 2 - 2 * (p + 1 / 1000) ^ 3))
          - (a + (b - a) * (3 * (p - 1 / 1000) ^ 2 - 2 * (p - 1 / 1000) ^ 3))) / (2 * (1 / 1000))
         = (b - a) * (6 * p * (1 - p) - 2 / 1000000)"
  by (simp add: field_simps power2_eq_square power3_eq_cube)

lemma cubic_second_difference:
  fixes a b p :: real
  shows "((a + (b - a) * (3 * (p + 1 / 1000) ^ 2 - 2 * (p + 1 / 1000) ^ 3))
          - 2 * (a + (b - a) * (3 * p ^ 2 - 2 * p ^ 3))
          + (a + (b - a) * (3 * (p - 1 / 1000) ^ 2 - 2 * (p - 1 / 1000) ^ 3)))
           / (1 / 1000 * (1 / 1000))
         = (b - a) * (6 - 12 * p)"
  by (simp add: field_simps power2_eq_square power3_eq_cube)

lemma evaluate_two_points_near:
  assumes "1 / 1000 \<le> p" and "p \<le> 999 / 1000"
  shows "evaluate (build [p0, p1]) (fadd (Fin p) (Fin (1 / 1000))) =
      Vec2 (vx p0 + (vx p1 - vx p0) * (3 * (p + 1 / 1000) ^ 2 - 2 * (p + 1 / 1000) ^ 3))
           (vy p0 + (vy p1 - vy p0) * (3 * (p + 1 / 1000) ^ 2 - 2 * (p + 1 / 1000) ^ 3))"
    and "evaluate (build [p0, p1]) (fsub (Fin p) (Fin (1 / 1000))) =
      Vec2 (vx p0 + (vx p1 - vx p0) * (3 * (p - 1 / 1000) ^ 2 - 2 * (p - 1 / 1000) ^ 3))
           (vy p0 + (vy p1 - vy p0) * (3 * (p - 1 / 1000) ^ 2 - 2 * (p - 1 / 1000) ^ 3))"
proof -
  have lo: "0 \<le> p - 1 / 1000" "p - 1 / 1000 \<le> 1" and hi: "0 \<le> p + 1 / 1000" "p + 1 / 1000 \<le> 1"
    using assms by simp_all
  show "evaluate (build [p0, p1]) (fadd (Fin p) (Fin (1 / 1000))) =
      Vec2 (vx p0 + (vx p1 - vx p0) * (3 * (p + 1 / 1000) ^ 2 - 2 * (p + 1 / 1000) ^ 3))
           (vy p0 + (vy p1 - vy p0) * (3 * (p + 1 / 1000) ^ 2 - 2 * (p + 1 / 1000) ^ 3))"
    using evaluate_two_points [OF hi] by (simp add: fadd_def)
  show "evaluate (build [p0, p1]) (fsub (Fin p) (Fin (1 / 1000))) =
      Vec2 (vx p0 + (vx p1 - vx p0) * (3 * (p - 1 / 1000) ^ 2 - 2 * (p - 1 / 1000) ^ 3))
           (vy p0 + (vy p1 - vy p0) * (3 * (p - 1 / 1000) ^ 2 - 2 * (p - 1 / 1000) ^ 3))"
    using evaluate_two_points [OF lo] by (simp add: fsub_def)
qed

lemma derivative_two_points:
  assumes "1 / 1000 \<le> p" and "p \<le> 999 / 1000"
  shows "derivative (build [p0, p1]) (Fin p) =
    Vec2 ((vx p1 - vx p0) * (6 * p * (1 - p) - 2 / 1000000))
         ((vy p1 - vy p0) * (6 * p * (1 - p) - 2 / 1000000))"
  unfolding derivative_def Let_def evaluate_two_points_near [OF assms]
  by (simp only: minus_vec2_def vdiv_def vec2.sel cubic_central_difference)

lemma secondDerivative_two_points:
  assumes "1 / 1000 \<le> p" and "p \<le> 999 / 1000"
  shows "secondDerivative (build [p0, p1]) (Fin p) =
    Vec2 ((vx p1 - vx p0) * (6 - 12 * p)) ((vy p1 - vy p0) * (6 - 12 * p))"
proof -
  have mid: "0 \<le> p" "p \<le> 1"
    using assms by simp_all
  show ?thesis
    unfolding secondDerivative_def Let_def evaluate_two_points_near [OF assms]
      evaluate_two_points [OF mid]
    by (simp only: minus_vec2_def plus_vec2_def smul_def vdiv_def vec2.sel cubic_second_difference)
qed

lemma tangent_factor_bound:
  assumes "1 / 1000 \<le> (p::real)" and "p \<le> 999 / 1000"
  shows "1 / 200 \<le> 6 * p * (1 - p) - 2 / 1000000"
proof -
  have "0 \<le> (p - 1 / 1000) * (999 / 1000 - p)"
    using assms by (intro mult_nonneg_nonneg) simp_all
  then have "999 / 1000000 \<le> p * (1 - p)" by (simp add: field_simps)
  then show ?thesis by simp
qed

lemma vlength_along_x: "vlength (Vec2 a 0) = \<bar>a\<bar>"
  by (simp add: vlength_def)

lemma vlength_along_y: "vlength (Vec2 0 b) = \<bar>b\<bar>"
  by (simp add: vlength_def)

lemma evaluate_two_points_first: "evaluate (build [p0, p1]) (Fin 0) = p0"
  using evaluate_two_points [of 0 p0 p1] by simp

lemma knots_back_two: "knots_back (build [p0, p1]) = Some 1"
  by (simp add: knots_back_def getKnots_def build_two)

text \<open>The flat track: the gondola at a parameter \<open>p\<close> away from the two ends.\<close>

lemma flat_tangent:
  assumes "progressAlongSpline g = Fin p" and "1 / 1000 \<le> p" and "p \<le> 999 / 1000"
  shows "animate_tangent flat_track g = Vec2 (6 * p * (1 - p) - 2 / 1000000) 0"
  by (simp add: animate_tangent_def flat_track_def assms(1) derivative_two_points [OF assms(2,3)])

lemma flat_locals:
  assumes "progressAlongSpline g = Fin p" and "1 / 1000 \<le> p" and "p \<le> 999 / 1000"
  shows "vlength (animate_tangent flat_track g) = 6 * p * (1 - p) - 2 / 1000000"
    and "animate_normal flat_track g = Vec2 0 1"
    and "animate_velocity flat_track g = Fin 0"
    and "animate_totalForce flat_track g = Fin 40"
proof -
  define d where "d = 6 * p * (1 - p) - 2 / 1000000"
  have d: "1 / 200 \<le> d"
    unfolding d_def using assms(2,3) by (rule tangent_factor_bound)
  have tangent: "animate_tangent flat_track g = Vec2 d 0"
    unfolding d_def using assms by (rule flat_tangent)
  have len': "vlength (Vec2 d 0) = d"
    using d by (simp add: vlength_along_x)
  then show "vlength (animate_tangent flat_track g) = 6 * p * (1 - p) - 2 / 1000000"
    by (simp add: tangent d_def)
  show normal: "animate_normal flat_track g = Vec2 0 1"
    using d by (simp add: animate_normal_def Let_def tangent len' vdiv_def)
  have "0 \<le> p" and "p \<le> 1"
    using assms(2,3) by simp_all
  then have here: "evaluate flat_track (Fin p) = Vec2 (3 * p ^ 2 - 2 * p ^ 3) 0"
    by (simp add: flat_track_def evaluate_two_points)
  have first: "evaluate flat_track (Fin 0) = Vec2 0 0"
    by (simp add: flat_track_def evaluate_two_points_first)
  show velocity: "animate_velocity flat_track g = Fin 0"
    by (simp add: animate_velocity_def currentHeight_def initialHeight_def normal fsqrt_def
        assms(1) here first plus_vec2_def)
  have second: "secondDerivative flat_track (Fin p) = Vec2 (6 - 12 * p) 0"
    using secondDerivative_two_points [OF assms(2,3), of "Vec2 0 0" "Vec2 1 0"]
    by (simp add: flat_track_def)
  have "animate_curvature flat_track g = 0"
    by (simp add: animate_curvature_def Let_def tangent assms(1) second)
  then show "animate_totalForce flat_track g = Fin 40"
    by (simp add: animate_totalForce_def velocity normal fmul_def fadd_def GRAVITY_def)
qed

lemma start_flat:
  "start flat_track new_gondola =
     \<lparr>progressAlongSpline = Fin (1 / 100), velocity = Fin 0, energy = 1 / 2,
      position = Vec2 (149 / 500000) 1, rotationAngle = Fin 0, state = Started\<rparr>"
proof -
  have "derivative flat_track (Fin (1 / 100)) = Vec2 (29699 / 500000) 0"
    using derivative_two_points [of "1 / 100" "Vec2 0 0" "Vec2 1 0"] by (simp add: flat_track_def)
  then have "normalize (derivative flat_track (Fin (1 / 100))) = Vec2 1 0"
    by (simp only: normalize_def vlength_along_x) (simp add: vdiv_def)
  moreover have "evaluate flat_track (Fin (1 / 100)) = Vec2 (149 / 500000) 0"
    by (simp add: flat_track_def evaluate_two_points power2_eq_square power3_eq_cube)
  ultimately show ?thesis
    by (simp add: start_def new_gondola_def Let_def gondolaRadius_def vmul_def plus_vec2_def)
qed

text \<open>
  C8 fails on the level track: the gondola never leaves the height of the first control
  point, its speed is 0, and a step of 1/100 that passes the guard and the force check
  leaves the progress at 1/100.
\<close>

theorem flat_step_keeps_progress:
  "state (start flat_track new_gondola) = Started
   \<and> \<not> vlength (animate_tangent flat_track (start flat_track new_gondola)) < EPSILON
   \<and> \<not> fless (animate_totalForce flat_track (start flat_track new_gondola)) (Fin 0)
   \<and> progressAlongSpline (start flat_track new_gondola) = Fin (1 / 100)
   \<and> map_option progressAlongSpline (animate flat_track (1 / 100) (start flat_track new_gondola))
       = Some (Fin (1 / 100))
   \<and> map_option state (animate flat_track (1 / 100) (start flat_track new_gondola))
       = Some Started"
proof -
  define g where "g = start flat_track new_gondola"
  have p: "progressAlongSpline g = Fin (1 / 100)" and st: "state g = Started"
    by (simp_all add: g_def start_flat)
  have r: "(1::real) / 1000 \<le> 1 / 100" "(1::real) / 100 \<le> 999 / 1000" by simp_all
  note loc = flat_locals [OF p r]
  have guard: "\<not> vlength (animate_tangent flat_track g) < EPSILON"
    by (simp add: loc EPSILON_def)
  have force: "\<not> fless (animate_totalForce flat_track g) (Fin 0)"
    by (simp add: loc)
  have "animate flat_track (1 / 100) g =
      Some (animate_update flat_track (1 / 100) g)"
    using st guard force
    by (simp add: animate_def Let_def flat_track_def [symmetric] knots_back_two [of "Vec2 0 0" "Vec2 1 0", folded flat_track_def]
        animate_update_def loc p fmul_def fdiv_def fadd_def)
  then show ?thesis
    using st guard force p
    by (simp add: g_def [symmetric] animate_update_def Let_def loc fmul_def fdiv_def fadd_def)
qed

lemma cubic_nonneg:
  assumes "0 \<le> (p::real)" and "p \<le> 1"
  shows "0 \<le> 3 * p ^ 2 - 2 * p ^ 3"
proof -
  have "3 * p ^ 2 - 2 * p ^ 3 = p ^ 2 * (3 - 2 * p)"
    by (simp add: power2_eq_square power3_eq_cube algebra_simps)
  moreover have "0 \<le> p ^ 2 * (3 - 2 * p)"
    using assms by (intro mult_nonneg_nonneg) simp_all
  ultimately show ?thesis by simp
qed

lemma cubic_pos:
  assumes "0 < (p::real)" and "p \<le> 1"
  shows "0 < 3 * p ^ 2 - 2 * p ^ 3"
proof -
  have "3 * p ^ 2 - 2 * p ^ 3 = p ^ 2 * (3 - 2 * p)"
    by (simp add: power2_eq_square power3_eq_cube algebra_simps)
  moreover have "0 < p ^ 2 * (3 - 2 * p)"
    using assms by (intro mult_pos_pos) simp_all
  ultimately show ?thesis by simp
qed

text \<open>The track straight down, at a parameter \<open>p\<close> away from the two ends.\<close>

lemma drop_locals:
  assumes "progressAlongSpline g = Fin p" and "1 / 1000 \<le> p" and "p \<le> 999 / 1000"
  shows "vlength (animate_tangent drop_track g) = 10 * (6 * p * (1 - p) - 2 / 1000000)"
    and "animate_normal drop_track g = Vec2 1 0"
    and "evaluate drop_track (progressAlongSpline g) = Vec2 0 (10 - 10 * (3 * p ^ 2 - 2 * p ^ 3))"
    and "initialHeight drop_track g - currentHeight drop_track g = 10 * (3 * p ^ 2 - 2 * p ^ 3)"
    and "animate_velocity drop_track g = Fin (sqrt (400 * (3 * p ^ 2 - 2 * p ^ 3)))"
    and "animate_totalForce drop_track g = Fin 0"
proof -
  define d where "d = 6 * p * (1 - p) - 2 / 1000000"
  have d: "1 / 200 \<le> d"
    unfolding d_def using assms(2,3) by (rule tangent_factor_bound)
  have tangent: "animate_tangent drop_track g = Vec2 0 (- (10 * d))"
    using derivative_two_points [OF assms(2,3), of "Vec2 0 10" "Vec2 0 0"]
    by (simp add: animate_tangent_def drop_track_def assms(1) d_def)
  have len': "vlength (Vec2 0 (- (10 * d))) = 10 * d"
    using d by (simp add: vlength_along_y)
  then show "vlength (animate_tangent drop_track g) = 10 * (6 * p * (1 - p) - 2 / 1000000)"
    by (simp add: tangent d_def)
  show normal: "animate_normal drop_track g = Vec2 1 0"
    using d by (simp add: animate_normal_def Let_def tangent len' vdiv_def)
  have "0 \<le> p" and "p \<le> 1"
    using assms(2,3) by simp_all
  note range = this
  then have here: "evaluate drop_track (Fin p) = Vec2 0 (10 - 10 * (3 * p ^ 2 - 2 * p ^ 3))"
    by (simp add: drop_track_def evaluate_two_points)
  then show "evaluate drop_track (progressAlongSpline g) = Vec2 0 (10 - 10 * (3 * p ^ 2 - 2 * p ^ 3))"
    by (simp add: assms(1))
  have first: "evaluate drop_track (Fin 0) = Vec2 0 10"
    by (simp add: drop_track_def evaluate_two_points_first)
  show heights: "initialHeight drop_track g - currentHeight drop_track g = 10 * (3 * p ^ 2 - 2 * p ^ 3)"
    by (simp add: currentHeight_def initialHeight_def normal assms(1) here first plus_vec2_def)
  have "0 \<le> 3 * p ^ 2 - 2 * p ^ 3"
    using range by (rule cubic_nonneg)
  then show velocity: "animate_velocity drop_track g = Fin (sqrt (400 * (3 * p ^ 2 - 2 * p ^ 3)))"
    unfolding animate_velocity_def heights by (simp add: fsqrt_def GRAVITY_def)
  have second: "secondDerivative drop_track (Fin p) = Vec2 0 (- (10 * (6 - 12 * p)))"
    using secondDerivative_two_points [OF assms(2,3), of "Vec2 0 10" "Vec2 0 0"]
    by (simp add: drop_track_def)
  have "animate_curvature drop_track g = 0"
    by (simp add: animate_curvature_def Let_def tangent assms(1) second)
  then show "animate_totalForce drop_track g = Fin 0"
    by (simp add: animate_totalForce_def velocity normal fmul_def fadd_def GRAVITY_def)
qed

text \<open>The track straight up, at a parameter \<open>p\<close> away from the two ends.\<close>

lemma climb_locals:
  assumes "progressAlongSpline g = Fin p" and "1 / 1000 \<le> p" and "p \<le> 999 / 1000"
  shows "vlength (animate_tangent climb_track g) = 10 * (6 * p * (1 - p) - 2 / 1000000)"
    and "animate_normal climb_track g = Vec2 (- 1) 0"
    and "evaluate climb_track (progressAlongSpline g) = Vec2 0 (10 * (3 * p ^ 2 - 2 * p ^ 3))"
    and "initialHeight climb_track g - currentHeight climb_track g = - (10 * (3 * p ^ 2 - 2 * p ^ 3))"
    and "animate_velocity climb_track g = NaN"
    and "animate_totalForce climb_track g = NaN"
proof -
  define d where "d = 6 * p * (1 - p) - 2 / 1000000"
  have d: "1 / 200 \<le> d"
    unfolding d_def using assms(2,3) by (rule tangent_factor_bound)
  have tangent: "animate_tangent climb_track g = Vec2 0 (10 * d)"
    using derivative_two_points [OF assms(2,3), of "Vec2 0 0" "Vec2 0 10"]
    by (simp add: animate_tangent_def climb_track_def assms(1) d_def)
  have len': "vlength (Vec2 0 (10 * d)) = 10 * d"
    using d by (simp add: vlength_along_y)
  then show "vlength (animate_tangent climb_track g) = 10 * (6 * p * (1 - p) - 2 / 1000000)"
    by (simp add: tangent d_def)
  show normal: "animate_normal climb_track g = Vec2 (- 1) 0"
    using d by (simp add: animate_normal_def Let_def tangent len' vdiv_def)
  have "0 < p" and "p \<le> 1"
    using assms(2,3) by simp_all
  note range = this
  then have here: "evaluate climb_track (Fin p) = Vec2 0 (10 * (3 * p ^ 2 - 2 * p ^ 3))"
    by (simp add: climb_track_def evaluate_two_points)
  then show "evaluate climb_track (progressAlongSpline g) = Vec2 0 (10 * (3 * p ^ 2 - 2 * p ^ 3))"
    by (simp add: assms(1))
  have first: "evaluate climb_track (Fin 0) = Vec2 0 0"
    by (simp add: climb_track_def evaluate_two_points_first)
  show heights: "initialHeight climb_track g - currentHeight climb_track g = - (10 * (3 * p ^ 2 - 2 * p ^ 3))"
    by (simp add: currentHeight_def initialHeight_def normal assms(1) here first plus_vec2_def)
  have "0 < 3 * p ^ 2 - 2 * p ^ 3"
    using range by (rule cubic_pos)
  then show velocity: "animate_velocity climb_track g = NaN"
    unfolding animate_velocity_def heights by (simp add: fsqrt_def GRAVITY_def)
  show "animate_totalForce climb_track g = NaN"
    by (simp add: animate_totalForce_def velocity fmul_def fadd_def)
qed

lemma start_drop:
  "start drop_track new_gondola =
     \<lparr>progressAlongSpline = Fin (1 / 100), velocity = Fin 0, energy = 250238 / 625,
      position = Vec2 1 (499851 / 50000), rotationAngle = Fin 0, state = Started\<rparr>"
proof -
  have "derivative drop_track (Fin (1 / 100)) = Vec2 0 (- (29699 / 50000))"
    using derivative_two_points [of "1 / 100" "Vec2 0 10" "Vec2 0 0"] by (simp add: drop_track_def)
  then have "normalize (derivative drop_track (Fin (1 / 100))) = Vec2 0 (- 1)"
    by (simp only: normalize_def vlength_along_y) (simp add: vdiv_def)
  moreover have "evaluate drop_track (Fin (1 / 100)) = Vec2 0 (499851 / 50000)"
    by (simp add: drop_track_def evaluate_two_points power2_eq_square power3_eq_cube)
  ultimately show ?thesis
    by (simp add: start_def new_gondola_def Let_def gondolaRadius_def vmul_def plus_vec2_def)
qed

lemma start_climb:
  "start climb_track new_gondola =
     \<lparr>progressAlongSpline = Fin (1 / 100), velocity = Fin 0, energy = 387 / 625,
      position = Vec2 (- 1) (149 / 50000), rotationAngle = Fin 0, state = Started\<rparr>"
proof -
  have "derivative climb_track (Fin (1 / 100)) = Vec2 0 (29699 / 50000)"
    using derivative_two_points [of "1 / 100" "Vec2 0 0" "Vec2 0 10"] by (simp add: climb_track_def)
  then have "normalize (derivative climb_track (Fin (1 / 100))) = Vec2 0 1"
    by (simp only: normalize_def vlength_along_y) (simp add: vdiv_def)
  moreover have "evaluate climb_track (Fin (1 / 100)) = Vec2 0 (149 / 50000)"
    by (simp add: climb_track_def evaluate_two_points power2_eq_square power3_eq_cube)
  ultimately show ?thesis
    by (simp add: start_def new_gondola_def Let_def gondolaRadius_def vmul_def plus_vec2_def)
qed

lemma knots_back_tracks:
  "knots_back flat_track = Some 1" "knots_back drop_track = Some 1" "knots_back climb_track = Some 1"
  by (simp_all add: flat_track_def drop_track_def climb_track_def knots_back_two)

text \<open>One step on the track straight down, from a parameter away from the two ends.\<close>

lemma animate_drop:
  assumes "state g = Started" and "progressAlongSpline g = Fin p"
    and "1 / 1000 \<le> p" and "p \<le> 999 / 1000"
  shows "animate drop_track dt g =
    Some ((if 1 < p + sqrt (400 * (3 * p ^ 2 - 2 * p ^ 3)) * dt / (10 * (6 * p * (1 - p) - 2 / 1000000))
           then (\<lambda>g'. g'\<lparr>state := Fallen\<rparr>) else (\<lambda>g'. g'))
      (g\<lparr>velocity := Fin (sqrt (400 * (3 * p ^ 2 - 2 * p ^ 3))),
          progressAlongSpline :=
            Fin (p + sqrt (400 * (3 * p ^ 2 - 2 * p ^ 3)) * dt / (10 * (6 * p * (1 - p) - 2 / 1000000))),
          position := Vec2 1 (10 - 10 * (3 * p ^ 2 - 2 * p ^ 3)),
          rotationAngle := fsub (rotationAngle g) (Fin (sqrt (400 * (3 * p ^ 2 - 2 * p ^ 3)) * dt))\<rparr>))"
proof -
  note loc = drop_locals [OF assms(2,3,4)]
  have "1 / 200 \<le> 6 * p * (1 - p) - 2 / 1000000"
    using assms(3,4) by (rule tangent_factor_bound)
  then have guard: "\<not> vlength (animate_tangent drop_track g) < EPSILON"
    by (simp add: loc EPSILON_def)
  have here: "evaluate drop_track (Fin p) = Vec2 0 (10 - 10 * (3 * p ^ 2 - 2 * p ^ 3))"
    using loc(3) by (simp add: assms(2))
  have upd: "animate_update drop_track dt g =
      g\<lparr>velocity := Fin (sqrt (400 * (3 * p ^ 2 - 2 * p ^ 3))),
        progressAlongSpline :=
          Fin (p + sqrt (400 * (3 * p ^ 2 - 2 * p ^ 3)) * dt / (10 * (6 * p * (1 - p) - 2 / 1000000))),
        position := Vec2 1 (10 - 10 * (3 * p ^ 2 - 2 * p ^ 3)),
        rotationAngle := fsub (rotationAngle g) (Fin (sqrt (400 * (3 * p ^ 2 - 2 * p ^ 3)) * dt))\<rparr>"
    by (simp add: animate_update_def Let_def loc assms(2) here fadd_def fmul_def fdiv_def
        gondolaRadius_def vmul_def plus_vec2_def)
  show ?thesis
    using assms(1) guard
    by (simp add: animate_def Let_def loc(6) knots_back_tracks upd)
qed

lemma first_speed_bounds:
  "0 < sqrt (400 * (3 * (1 / 100) ^ 2 - 2 * (1 / 100) ^ 3))"
  "sqrt (400 * (3 * (1 / 100) ^ 2 - 2 * (1 / 100) ^ 3)) \<le> 1"
  by (simp_all add: power2_eq_square power3_eq_cube)

lemma animate_climb:
  assumes "state g = Started" and "progressAlongSpline g = Fin p"
    and "1 / 1000 \<le> p" and "p \<le> 999 / 1000"
  shows "animate climb_track dt g =
    Some (g\<lparr>velocity := NaN, progressAlongSpline := NaN,
            position := Vec2 (- 1) (10 * (3 * p ^ 2 - 2 * p ^ 3)), rotationAngle := NaN\<rparr>)"
proof -
  note loc = climb_locals [OF assms(2,3,4)]
  have "1 / 200 \<le> 6 * p * (1 - p) - 2 / 1000000"
    using assms(3,4) by (rule tangent_factor_bound)
  then have guard: "\<not> vlength (animate_tangent climb_track g) < EPSILON"
    by (simp add: loc EPSILON_def)
  have here: "evaluate climb_track (Fin p) = Vec2 0 (10 * (3 * p ^ 2 - 2 * p ^ 3))"
    using loc(3) by (simp add: assms(2))
  have upd: "animate_update climb_track dt g =
      g\<lparr>velocity := NaN, progressAlongSpline := NaN,
        position := Vec2 (- 1) (10 * (3 * p ^ 2 - 2 * p ^ 3)), rotationAngle := NaN\<rparr>"
    by (simp add: animate_update_def Let_def loc assms(2) here fadd_def fsub_def fmul_def fdiv_def
        gondolaRadius_def vmul_def plus_vec2_def)
  show ?thesis
    using assms(1) guard
    by (simp add: animate_def Let_def loc(6) knots_back_tracks upd)
qed

lemma cubic_grows:
  assumes "1 / 100 < (p::real)" and "p \<le> 3 / 100"
  shows "3 * (1 / 100) ^ 2 - 2 * (1 / 100) ^ 3 < 3 * p ^ 2 - 2 * p ^ 3"
proof -
  have sq: "p * p \<le> 3 / 100 * (3 / 100)"
    using assms by (intro mult_mono) simp_all
  have "0 < (p - 1 / 100) * (3 * (1 / 100 + p) - 2 * ((1 / 100) ^ 2 + 1 / 100 * p + p * p))"
    using assms sq by (intro mult_pos_pos) (simp_all add: power2_eq_square)
  also have "(p - 1 / 100) * (3 * (1 / 100 + p) - 2 * ((1 / 100) ^ 2 + 1 / 100 * p + p * p))
      = (3 * p ^ 2 - 2 * p ^ 3) - (3 * (1 / 100) ^ 2 - 2 * (1 / 100) ^ 3)"
    by (simp add: power2_eq_square power3_eq_cube field_simps)
  finally show ?thesis by simp
qed

text \<open>The first step of 1/100 on the track straight down.\<close>

lemma drop_first_step:
  obtains p1 r1 v1 where "1 / 100 < p1" and "p1 \<le> 3 / 100"
    and "animate drop_track (1 / 100) (start drop_track new_gondola) =
      Some \<lparr>progressAlongSpline = Fin p1, velocity = Fin v1, energy = 250238 / 625,
        position = Vec2 1 (499851 / 50000), rotationAngle = Fin r1, state = Started\<rparr>"
proof -
  define v where "v = sqrt (400 * (3 * (1 / 100) ^ 2 - 2 * (1 / 100) ^ 3))"
  have v: "0 < v" "v \<le> 1"
    unfolding v_def by (rule first_speed_bounds)+
  define p1 where "p1 = 1 / 100 + v * (1 / 100) / (10 * (6 * (1 / 100) * (1 - 1 / 100) - 2 / 1000000))"
  have p1: "p1 = 1 / 100 + v * (500 / 29699)"
    by (simp add: p1_def)
  have lo: "1 / 100 < p1" using v(1) by (simp add: p1)
  have "v * (500 / 29699) \<le> 1 * (500 / 29699)"
    using v(2) by (intro mult_right_mono) simp_all
  then have hi: "p1 \<le> 3 / 100" by (simp add: p1)
  then have not_end: "\<not> 1 < p1" by simp
  have st: "state (start drop_track new_gondola) = Started"
    and pr: "progressAlongSpline (start drop_track new_gondola) = Fin (1 / 100)"
    by (simp_all add: start_drop)
  have r: "(1::real) / 1000 \<le> 1 / 100" "(1::real) / 100 \<le> 999 / 1000" by simp_all
  note raw = animate_drop [OF st pr r, of "1 / 100", folded v_def, folded p1_def]
  have "animate drop_track (1 / 100) (start drop_track new_gondola) =
      Some \<lparr>progressAlongSpline = Fin p1, velocity = Fin v, energy = 250238 / 625,
        position = Vec2 1 (499851 / 50000), rotationAngle = Fin (0 - v * (1 / 100)), state = Started\<rparr>"
    unfolding raw using not_end
    by (simp add: start_drop fsub_def power2_eq_square power3_eq_cube)
  with lo hi show ?thesis by (rule that)
qed

subsection \<open>Velocity, progress and steps of no duration\<close>

lemma locals_depend_on_progress:
  assumes "progressAlongSpline g1 = progressAlongSpline g2"
  shows "animate_tangent s g1 = animate_tangent s g2"
    and "animate_normal s g1 = animate_normal s g2"
    and "animate_velocity s g1 = animate_velocity s g2"
    and "animate_totalForce s g1 = animate_totalForce s g2"
  using assms
  by (simp_all add: animate_tangent_def animate_normal_def animate_velocity_def currentHeight_def
      initialHeight_def animate_totalForce_def animate_curvature_def)

lemma velocity_Fin:
  assumes "currentHeight s g \<le> initialHeight s g"
  shows "animate_velocity s g = Fin (sqrt (GRAVITY * (initialHeight s g - currentHeight s g)))"
  using assms by (simp add: animate_velocity_def fsqrt_def GRAVITY_def)

lemma velocity_nonneg_iff:
  "fle (Fin 0) (animate_velocity s g) \<longleftrightarrow> currentHeight s g \<le> initialHeight s g"
  by (simp add: animate_velocity_def fsqrt_def GRAVITY_def)

lemma animate_velocity_after:
  assumes "animate s dt g = Some g'"
  shows "velocity g' =
    (if state g = Started \<and> \<not> vlength (animate_tangent s g) < EPSILON
     then animate_velocity s g else velocity g)"
  using assms
  by (auto simp add: animate_def animate_update_def Let_def split: if_splits option.splits)

text \<open>
  C5, amended. The velocity is 0 in a new gondola and after \<^verbatim>\<open>start\<close> on a waiting one
  (\<^verbatim>\<open>start\<close> otherwise keeps it). The velocity that a step computes is at least 0 exactly
  when the current height is at most the initial height; it replaces the stored one when the
  step passes the guard. So a step from a velocity of at least 0, at a current height of at
  most the initial height, ends with a velocity of at least 0.
\<close>

theorem speed_nonneg_below_start_height:
  "velocity new_gondola = Fin 0
   \<and> (state g = Waiting \<longrightarrow> velocity (start (build ps) g) = Fin 0)
   \<and> (state g \<noteq> Waiting \<longrightarrow> velocity (start (build ps) g) = velocity g)
   \<and> (fle (Fin 0) (animate_velocity (build ps) g) \<longleftrightarrow>
        currentHeight (build ps) g \<le> initialHeight (build ps) g)
   \<and> (\<exists>g'. animate (build ps) dt g = Some g'
        \<and> velocity g' =
            (if state g = Started \<and> \<not> vlength (animate_tangent (build ps) g) < EPSILON
             then animate_velocity (build ps) g else velocity g)
        \<and> (fle (Fin 0) (velocity g) \<longrightarrow>
             currentHeight (build ps) g \<le> initialHeight (build ps) g \<longrightarrow>
             fle (Fin 0) (velocity g')))"
proof -
  have a: "velocity new_gondola = Fin 0"
    by (simp add: new_gondola_def)
  have b: "state g = Waiting \<longrightarrow> velocity (start (build ps) g) = Fin 0"
    by (simp add: start_def Let_def)
  have c: "state g \<noteq> Waiting \<longrightarrow> velocity (start (build ps) g) = velocity g"
    by (simp add: start_def)
  obtain g' where step: "animate (build ps) dt g = Some g'"
    using animate_build_defined [of ps dt g] by auto
  note after = animate_velocity_after [OF step]
  have d: "fle (Fin 0) (velocity g) \<longrightarrow>
        currentHeight (build ps) g \<le> initialHeight (build ps) g \<longrightarrow> fle (Fin 0) (velocity g')"
    using velocity_nonneg_iff [of "build ps" g] by (auto simp add: after)
  show ?thesis
    using a b c d step after velocity_nonneg_iff [of "build ps" g] by blast
qed

text \<open>
  C8, amended. A step of positive duration by a started gondola that passes the guard and
  the force check, at a current height of at most the initial height, ends with a greater
  progress when the current height is below the initial height, and with the same progress
  when the two heights are equal (the speed is 0 then).
\<close>

theorem progress_grows_below_start_height:
  assumes "state g = Started"
    and "\<not> vlength (animate_tangent (build ps) g) < EPSILON"
    and "\<not> fless (animate_totalForce (build ps) g) (Fin 0)"
    and "0 < dt"
    and "currentHeight (build ps) g \<le> initialHeight (build ps) g"
  shows "\<exists>g'. animate (build ps) dt g = Some g'
    \<and> (if currentHeight (build ps) g < initialHeight (build ps) g
        then fless (progressAlongSpline g) (progressAlongSpline g')
        else progressAlongSpline g' = progressAlongSpline g)"
proof -
  from assms(2) obtain p where p: "progressAlongSpline g = Fin p"
    using guard_passes_Fin by blast
  from assms(2) have len: "0 < vlength (animate_tangent (build ps) g)"
    by (simp add: EPSILON_def)
  from assms(2) have "2 \<le> length (cps (build ps))" by (rule guard_passes_two_points)
  then have "ps \<noteq> []" by (auto simp add: cps_build)
  then have kb: "knots_back (build ps) = Some (last (getKnots (build ps)))"
    by (rule knots_back_build)
  define v where "v = sqrt (GRAVITY * (initialHeight (build ps) g - currentHeight (build ps) g))"
  have vel: "animate_velocity (build ps) g = Fin v"
    unfolding v_def using assms(5) by (rule velocity_Fin)
  have prog: "progressAlongSpline (animate_update (build ps) dt g) =
      Fin (p + v * dt / vlength (animate_tangent (build ps) g))"
    by (simp add: animate_update_def Let_def vel p fadd_def fmul_def fdiv_def)
  have run: "\<exists>g'. animate (build ps) dt g = Some g'
      \<and> progressAlongSpline g' = Fin (p + v * dt / vlength (animate_tangent (build ps) g))"
    using assms(1,2,3) kb prog by (simp add: animate_def Let_def)
  show ?thesis
  proof (cases "currentHeight (build ps) g < initialHeight (build ps) g")
    case True
    then have "0 < v" by (simp add: v_def GRAVITY_def)
    with assms(4) len have "0 < v * dt / vlength (animate_tangent (build ps) g)" by simp
    with run True show ?thesis by (auto simp add: p)
  next
    case False
    with assms(5) have "v = 0" by (simp add: v_def)
    with run False show ?thesis by (auto simp add: p)
  qed
qed

lemma zero_step_any:
  assumes "state g = Started"
    and "animate s 0 g = Some g'"
    and "vlength (animate_tangent s g) < EPSILON \<or> currentHeight s g \<le> initialHeight s g"
  shows "progressAlongSpline g' = progressAlongSpline g
    \<and> rotationAngle g' = rotationAngle g
    \<and> position g' =
        (if vlength (animate_tangent s g) < EPSILON \<or> fless (animate_totalForce s g) (Fin 0)
         then position g
         else evaluate s (progressAlongSpline g) + vmul (animate_normal s g) gondolaRadius)
    \<and> animate s 0 g' = Some g'"
proof (cases "vlength (animate_tangent s g) < EPSILON")
  case True
  with assms(1,2) have "g' = g" by (simp add: animate_def)
  with True assms(2) show ?thesis by simp
next
  case False
  with assms(3) have h: "currentHeight s g \<le> initialHeight s g" by simp
  from False obtain p where p: "progressAlongSpline g = Fin p"
    using guard_passes_Fin by blast
  define v where "v = sqrt (GRAVITY * (initialHeight s g - currentHeight s g))"
  have vel: "animate_velocity s g = Fin v"
    unfolding v_def using h by (rule velocity_Fin)
  show ?thesis
  proof (cases "fless (animate_totalForce s g) (Fin 0)")
    case True
    with assms(1,2) False have g': "g' = g\<lparr>velocity := animate_velocity s g, state := Fallen\<rparr>"
      by (simp add: animate_def)
    with True False show ?thesis by (simp add: animate_def)
  next
    case force: False
    have rot: "fsub (rotationAngle g) (Fin 0) = rotationAngle g"
      by (cases "rotationAngle g") (simp_all add: fsub_def)
    have upd: "animate_update s 0 g =
        g\<lparr>velocity := Fin v,
          position := evaluate s (progressAlongSpline g) + vmul (animate_normal s g) gondolaRadius\<rparr>"
      by (simp add: animate_update_def Let_def vel p fadd_def fmul_def fdiv_def rot)
    from assms(1,2) False force obtain b where kb: "knots_back s = Some b"
      by (cases "knots_back s") (simp_all add: animate_def)
    define u where "u = g\<lparr>velocity := Fin v,
          position := evaluate s (progressAlongSpline g) + vmul (animate_normal s g) gondolaRadius\<rparr>"
    have same: "progressAlongSpline u = progressAlongSpline g" by (simp add: u_def)
    have g': "g' = (if fless (Fin b) (Fin p) then u\<lparr>state := Fallen\<rparr> else u)"
      using assms(1,2) False force kb by (auto simp add: animate_def Let_def upd u_def p)
    have again: "animate_update s 0 u = u"
      using locals_depend_on_progress [OF same, of s]
      by (simp add: animate_update_def Let_def vel fadd_def fmul_def fdiv_def u_def p rot)
    have "animate s 0 g' = Some g'"
    proof (cases "fless (Fin b) (Fin p)")
      case True
      with g' show ?thesis by (simp add: animate_def)
    next
      case nf: False
      with g' have "g' = u" by simp
      moreover have "animate s 0 u = Some u"
        using locals_depend_on_progress [OF same, of s] False force kb nf assms(1)
        by (simp add: animate_def Let_def again) (simp add: u_def p)
      ultimately show ?thesis by simp
    qed
    with g' False force show ?thesis by (auto simp add: u_def)
  qed
qed

text \<open>
  C3, amended. A step of duration 0 by a started gondola, one that stops at the guard or is
  taken at a current height of at most the initial height, leaves progress and rotation as
  they were. It leaves the position as it was when it stops at the guard or at the force
  check, and otherwise sets it to the point of the curve at the progress, moved by the
  normal times the radius. A second step of duration 0 changes nothing at all.
\<close>

theorem zero_step:
  assumes "state g = Started"
    and "vlength (animate_tangent (build ps) g) < EPSILON
      \<or> currentHeight (build ps) g \<le> initialHeight (build ps) g"
  shows "\<exists>g'. animate (build ps) 0 g = Some g'
    \<and> progressAlongSpline g' = progressAlongSpline g
    \<and> rotationAngle g' = rotationAngle g
    \<and> position g' =
        (if vlength (animate_tangent (build ps) g) < EPSILON
            \<or> fless (animate_totalForce (build ps) g) (Fin 0)
         then position g
         else evaluate (build ps) (progressAlongSpline g)
                + vmul (animate_normal (build ps) g) gondolaRadius)
    \<and> animate (build ps) 0 g' = Some g'"
proof -
  obtain g' where step: "animate (build ps) 0 g = Some g'"
    using animate_build_defined [of ps 0 g] by auto
  from zero_step_any [OF assms(1) step assms(2)] step show ?thesis by blast
qed

text \<open>
  C3 fails. On the track straight down, after \<^verbatim>\<open>start\<close> and a step of 1/100, a step of 0
  changes the position: the stored position belongs to the progress before the last
  advance. On the track straight up, the step of 0 right after \<^verbatim>\<open>start\<close> takes the root of
  a negative number, and progress and rotation become NaN.
\<close>

theorem zero_step_moves_position:
  "map_option state (run drop_track [Start, Animate (1 / 100)] new_gondola) = Some Started
   \<and> map_option position (run drop_track [Start, Animate (1 / 100), Animate 0] new_gondola)
       \<noteq> map_option position (run drop_track [Start, Animate (1 / 100)] new_gondola)
   \<and> map_option state (run climb_track [Start] new_gondola) = Some Started
   \<and> map_option progressAlongSpline (run climb_track [Start] new_gondola) = Some (Fin (1 / 100))
   \<and> map_option progressAlongSpline (run climb_track [Start, Animate 0] new_gondola) = Some NaN
   \<and> map_option rotationAngle (run climb_track [Start] new_gondola) = Some (Fin 0)
   \<and> map_option rotationAngle (run climb_track [Start, Animate 0] new_gondola) = Some NaN"
proof -
  obtain p1 r1 v1 where lo: "1 / 100 < p1" and hi: "p1 \<le> 3 / 100"
    and first0: "animate drop_track (1 / 100) (start drop_track new_gondola) =
      Some \<lparr>progressAlongSpline = Fin p1, velocity = Fin v1, energy = 250238 / 625,
        position = Vec2 1 (499851 / 50000), rotationAngle = Fin r1, state = Started\<rparr>"
    by (rule drop_first_step)
  define g1 where "g1 = \<lparr>progressAlongSpline = Fin p1, velocity = Fin v1,
        energy = 250238 / 625,
        position = Vec2 1 (499851 / 50000), rotationAngle = Fin r1, state = Started\<rparr>"
  have first: "animate drop_track (1 / 100) (start drop_track new_gondola) = Some g1"
    unfolding g1_def by (rule first0)
  have g1: "state g1 = Started" "progressAlongSpline g1 = Fin p1"
    "position g1 = Vec2 1 (499851 / 50000)"
    by (simp_all add: g1_def)
  have range: "1 / 1000 \<le> p1" "p1 \<le> 999 / 1000"
    using lo hi by simp_all
  define y where "y = 10 - 10 * (3 * p1 ^ 2 - 2 * p1 ^ 3)"
  have "3 * (1 / 100) ^ 2 - 2 * (1 / 100) ^ 3 < 3 * p1 ^ 2 - 2 * p1 ^ 3"
    using lo hi by (rule cubic_grows)
  then have lower: "y \<noteq> 499851 / 50000"
    by (simp add: y_def power2_eq_square power3_eq_cube)
  have "map_option position (animate drop_track 0 g1) = Some (Vec2 1 y)"
    unfolding y_def by (simp add: animate_drop [OF g1(1,2) range])
  with lower have moved: "map_option position (animate drop_track 0 g1) \<noteq> Some (position g1)"
    by (auto simp add: g1(3))
  have a: "map_option state (run drop_track [Start, Animate (1 / 100)] new_gondola) = Some Started"
    by (simp add: first g1(1))
  have b: "map_option position (run drop_track [Start, Animate (1 / 100), Animate 0] new_gondola)
       \<noteq> map_option position (run drop_track [Start, Animate (1 / 100)] new_gondola)"
    using moved by (simp add: first split: option.splits)
  have st: "state (start climb_track new_gondola) = Started"
    and pr: "progressAlongSpline (start climb_track new_gondola) = Fin (1 / 100)"
    by (simp_all add: start_climb)
  have r: "(1::real) / 1000 \<le> 1 / 100" "(1::real) / 100 \<le> 999 / 1000" by simp_all
  have c: "map_option state (run climb_track [Start] new_gondola) = Some Started"
    "map_option progressAlongSpline (run climb_track [Start] new_gondola) = Some (Fin (1 / 100))"
    "map_option rotationAngle (run climb_track [Start] new_gondola) = Some (Fin 0)"
    by (simp_all add: start_climb)
  have d: "map_option progressAlongSpline (run climb_track [Start, Animate 0] new_gondola) = Some NaN"
    "map_option rotationAngle (run climb_track [Start, Animate 0] new_gondola) = Some NaN"
    by (simp_all add: animate_climb [OF st pr r])
  show ?thesis
    using a b c d by blast
qed

text \<open>
  C5 fails on the track straight up: after \<^verbatim>\<open>start\<close> the gondola is above the first
  control point, the root is taken of a negative number, and the velocity after the step is
  NaN, which is not at least 0.
\<close>

theorem speed_NaN_above_start_height:
  "map_option state (run climb_track [Start] new_gondola) = Some Started
   \<and> initialHeight climb_track (start climb_track new_gondola)
       < currentHeight climb_track (start climb_track new_gondola)
   \<and> map_option velocity (run climb_track [Start, Animate (1 / 100)] new_gondola) = Some NaN
   \<and> \<not> fle (Fin 0) NaN"
proof -
  have st: "state (start climb_track new_gondola) = Started"
    and pr: "progressAlongSpline (start climb_track new_gondola) = Fin (1 / 100)"
    by (simp_all add: start_climb)
  have r: "(1::real) / 1000 \<le> 1 / 100" "(1::real) / 100 \<le> 999 / 1000" by simp_all
  have "initialHeight climb_track (start climb_track new_gondola)
       - currentHeight climb_track (start climb_track new_gondola) < 0"
    by (simp add: climb_locals(4) [OF pr r] power2_eq_square power3_eq_cube)
  then have "initialHeight climb_track (start climb_track new_gondola)
       < currentHeight climb_track (start climb_track new_gondola)"
    by simp
  then show ?thesis
    by (simp add: st animate_climb [OF st pr r])
qed

text \<open>Instances of the theorems above, on the track straight down and on a spline of one point.\<close>

lemma first_speed: "sqrt (400 * (3 * (1 / 100) ^ 2 - 2 * (1 / 100) ^ 3)) = sqrt (149 / 1250)"
  by (simp add: power2_eq_square power3_eq_cube)

lemma drop_started:
  "state (start drop_track new_gondola) = Started"
  "progressAlongSpline (start drop_track new_gondola) = Fin (1 / 100)"
  "\<not> vlength (animate_tangent drop_track (start drop_track new_gondola)) < EPSILON"
  "animate_totalForce drop_track (start drop_track new_gondola) = Fin 0"
  "animate_velocity drop_track (start drop_track new_gondola) = Fin (sqrt (149 / 1250))"
  "currentHeight drop_track (start drop_track new_gondola)
     < initialHeight drop_track (start drop_track new_gondola)"
proof -
  show st: "state (start drop_track new_gondola) = Started"
    and pr: "progressAlongSpline (start drop_track new_gondola) = Fin (1 / 100)"
    by (simp_all add: start_drop)
  have r: "(1::real) / 1000 \<le> 1 / 100" "(1::real) / 100 \<le> 999 / 1000" by simp_all
  note loc = drop_locals [OF pr r]
  show "\<not> vlength (animate_tangent drop_track (start drop_track new_gondola)) < EPSILON"
    by (simp add: loc(1) EPSILON_def)
  show "animate_totalForce drop_track (start drop_track new_gondola) = Fin 0"
    by (rule loc(6))
  show "animate_velocity drop_track (start drop_track new_gondola) = Fin (sqrt (149 / 1250))"
    by (simp only: loc(5) first_speed)
  have "0 < initialHeight drop_track (start drop_track new_gondola)
      - currentHeight drop_track (start drop_track new_gondola)"
    by (simp add: loc(4) power2_eq_square power3_eq_cube)
  then show "currentHeight drop_track (start drop_track new_gondola)
     < initialHeight drop_track (start drop_track new_gondola)"
    by simp
qed

lemma drop_zero_step:
  "animate drop_track 0 (start drop_track new_gondola)
     = Some ((start drop_track new_gondola)\<lparr>velocity := Fin (sqrt (149 / 1250))\<rparr>)"
proof -
  have r: "(1::real) / 1000 \<le> 1 / 100" "(1::real) / 100 \<le> 999 / 1000" by simp_all
  show ?thesis
    unfolding animate_drop [OF drop_started(1,2) r] first_speed
    by (simp add: start_drop fsub_def power2_eq_square power3_eq_cube)
qed

theorem zero_step_witness:
  "state (start drop_track new_gondola) = Started
   \<and> currentHeight drop_track (start drop_track new_gondola)
       \<le> initialHeight drop_track (start drop_track new_gondola)
   \<and> animate drop_track 0 (start drop_track new_gondola)
       = Some ((start drop_track new_gondola)\<lparr>velocity := Fin (sqrt (149 / 1250))\<rparr>)
   \<and> progressAlongSpline ((start drop_track new_gondola)\<lparr>velocity := Fin (sqrt (149 / 1250))\<rparr>)
       = progressAlongSpline (start drop_track new_gondola)
   \<and> rotationAngle ((start drop_track new_gondola)\<lparr>velocity := Fin (sqrt (149 / 1250))\<rparr>)
       = rotationAngle (start drop_track new_gondola)
   \<and> position ((start drop_track new_gondola)\<lparr>velocity := Fin (sqrt (149 / 1250))\<rparr>)
       = evaluate drop_track (Fin (1 / 100))
          + vmul (animate_normal drop_track (start drop_track new_gondola)) gondolaRadius
   \<and> animate drop_track 0 ((start drop_track new_gondola)\<lparr>velocity := Fin (sqrt (149 / 1250))\<rparr>)
       = Some ((start drop_track new_gondola)\<lparr>velocity := Fin (sqrt (149 / 1250))\<rparr>)"
proof -
  have h: "vlength (animate_tangent drop_track (start drop_track new_gondola)) < EPSILON
      \<or> currentHeight drop_track (start drop_track new_gondola)
       \<le> initialHeight drop_track (start drop_track new_gondola)"
    using drop_started(6) by simp
  from zero_step
    [of "start drop_track new_gondola" "[Vec2 0 10, Vec2 0 0]", folded drop_track_def,
      OF drop_started(1) h]
  obtain g' where step: "animate drop_track 0 (start drop_track new_gondola) = Some g'"
    and same: "progressAlongSpline g' = progressAlongSpline (start drop_track new_gondola)"
      "rotationAngle g' = rotationAngle (start drop_track new_gondola)"
    and pos: "position g' =
        (if vlength (animate_tangent drop_track (start drop_track new_gondola)) < EPSILON
            \<or> fless (animate_totalForce drop_track (start drop_track new_gondola)) (Fin 0)
         then position (start drop_track new_gondola)
         else evaluate drop_track (progressAlongSpline (start drop_track new_gondola))
                + vmul (animate_normal drop_track (start drop_track new_gondola)) gondolaRadius)"
    and again: "animate drop_track 0 g' = Some g'"
    by blast
  from step have g': "g' = (start drop_track new_gondola)\<lparr>velocity := Fin (sqrt (149 / 1250))\<rparr>"
    by (simp add: drop_zero_step)
  from pos have "position g' = evaluate drop_track (Fin (1 / 100))
          + vmul (animate_normal drop_track (start drop_track new_gondola)) gondolaRadius"
    by (simp add: drop_started)
  with same again step drop_started(1,6) show ?thesis
    unfolding g' by simp
qed

theorem departure_exactly_on_force_or_end_witness:
  "state (start drop_track new_gondola) = Started
   \<and> \<not> vlength (animate_tangent drop_track (start drop_track new_gondola)) < EPSILON
   \<and> animate_totalForce drop_track (start drop_track new_gondola) = Fin 0
   \<and> map_option state (animate drop_track (1 / 100) (start drop_track new_gondola)) = Some Started
   \<and> map_option progressAlongSpline (animate drop_track (1 / 100) (start drop_track new_gondola))
       = Some (Fin (1 / 100 + sqrt (149 / 1250) * (1 / 100) / (29699 / 50000)))
   \<and> map_option position (animate drop_track (1 / 100) (start drop_track new_gondola))
       = Some (Vec2 1 (499851 / 50000))"
proof -
  from departure_exactly_on_force_or_end
    [of "start drop_track new_gondola" "[Vec2 0 10, Vec2 0 0]" "1 / 100", folded drop_track_def,
      OF drop_started(1) drop_started(3)]
  obtain g' where step: "animate drop_track (1 / 100) (start drop_track new_gondola) = Some g'"
    and fallen: "state g' = Fallen \<longleftrightarrow>
         fless (animate_totalForce drop_track (start drop_track new_gondola)) (Fin 0)
         \<or> fless (Fin (last (getKnots drop_track))) (progressAlongSpline g')"
    and upd: "\<not> fless (animate_totalForce drop_track (start drop_track new_gondola)) (Fin 0) \<longrightarrow>
         progressAlongSpline g' =
           fadd (progressAlongSpline (start drop_track new_gondola))
             (fdiv (fmul (animate_velocity drop_track (start drop_track new_gondola)) (Fin (1 / 100)))
                (Fin (vlength (animate_tangent drop_track (start drop_track new_gondola)))))
         \<and> position g' =
             evaluate drop_track (progressAlongSpline (start drop_track new_gondola))
               + vmul (animate_normal drop_track (start drop_track new_gondola)) gondolaRadius
         \<and> rotationAngle g' =
             fsub (rotationAngle (start drop_track new_gondola))
               (fmul (fdiv (animate_velocity drop_track (start drop_track new_gondola))
                  (Fin gondolaRadius)) (Fin (1 / 100)))"
    by blast
  have r: "(1::real) / 1000 \<le> 1 / 100" "(1::real) / 100 \<le> 999 / 1000" by simp_all
  note loc = drop_locals [OF drop_started(2) r]
  have len: "vlength (animate_tangent drop_track (start drop_track new_gondola)) = 29699 / 50000"
    by (simp add: loc(1))
  have prog: "progressAlongSpline g' = Fin (1 / 100 + sqrt (149 / 1250) * (1 / 100) / (29699 / 50000))"
    using upd by (simp only: drop_started len fadd_def fmul_def fdiv_def flt2.simps fless.simps)
  have pos: "position g' = Vec2 1 (499851 / 50000)"
    using upd
    by (simp add: drop_started(4) loc(2) loc(3) gondolaRadius_def vmul_def plus_vec2_def
        power2_eq_square power3_eq_cube)
  define w where "w = sqrt (149 / 1250)"
  have "w \<le> 1" by (simp add: w_def)
  then have "\<not> 1 < 1 / 100 + w * (1 / 100) / (29699 / 50000)" by simp
  then have "\<not> 1 < 1 / 100 + sqrt (149 / 1250) * (1 / 100) / (29699 / 50000)"
    unfolding w_def .
  moreover have "last (getKnots drop_track) = 1"
    by (simp add: getKnots_def drop_track_def build_two)
  ultimately have "state g' \<noteq> Fallen"
    using fallen by (simp add: drop_started(4) prog)
  moreover have "state g' \<noteq> Waiting"
    using animate_state_value [OF step] by (auto simp add: drop_started(1))
  ultimately have "state g' = Started" by (cases "state g'") simp_all
  then show ?thesis
    using step prog pos drop_started by simp
qed

theorem progress_grows_below_start_height_witness:
  "state (start drop_track new_gondola) = Started
   \<and> \<not> vlength (animate_tangent drop_track (start drop_track new_gondola)) < EPSILON
   \<and> \<not> fless (animate_totalForce drop_track (start drop_track new_gondola)) (Fin 0)
   \<and> (0::real) < 1 / 100
   \<and> currentHeight drop_track (start drop_track new_gondola)
       < initialHeight drop_track (start drop_track new_gondola)
   \<and> progressAlongSpline (start drop_track new_gondola) = Fin (1 / 100)
   \<and> map_option (fless (Fin (1 / 100)))
        (map_option progressAlongSpline (animate drop_track (1 / 100) (start drop_track new_gondola)))
       = Some True"
proof -
  have force: "\<not> fless (animate_totalForce drop_track (start drop_track new_gondola)) (Fin 0)"
    by (simp add: drop_started(4))
  have dt: "(0::real) < 1 / 100" by simp
  have le: "currentHeight drop_track (start drop_track new_gondola)
       \<le> initialHeight drop_track (start drop_track new_gondola)"
    using drop_started(6) by simp
  from progress_grows_below_start_height
    [of "start drop_track new_gondola" "[Vec2 0 10, Vec2 0 0]" "1 / 100", folded drop_track_def,
      OF drop_started(1) drop_started(3) force dt le]
  obtain g' where step: "animate drop_track (1 / 100) (start drop_track new_gondola) = Some g'"
    and grow: "fless (progressAlongSpline (start drop_track new_gondola)) (progressAlongSpline g')"
    using drop_started(6) by auto
  from grow have "fless (Fin (1 / 100)) (progressAlongSpline g')"
    by (simp only: drop_started(2))
  with step force dt drop_started show ?thesis by simp
qed

theorem speed_nonneg_below_start_height_witness:
  "velocity new_gondola = Fin 0
   \<and> state new_gondola = Waiting
   \<and> velocity (start drop_track new_gondola) = Fin 0
   \<and> state (start drop_track new_gondola) \<noteq> Waiting
   \<and> velocity (start drop_track (start drop_track new_gondola))
       = velocity (start drop_track new_gondola)
   \<and> currentHeight drop_track (start drop_track new_gondola)
       \<le> initialHeight drop_track (start drop_track new_gondola)
   \<and> fle (Fin 0) (animate_velocity drop_track (start drop_track new_gondola))
   \<and> map_option velocity (animate drop_track (1 / 100) (start drop_track new_gondola))
       = Some (Fin (sqrt (149 / 1250)))
   \<and> fle (Fin 0) (Fin (sqrt (149 / 1250)))"
proof -
  have w: "state new_gondola = Waiting" by (simp add: new_gondola_def)
  note a = speed_nonneg_below_start_height
    [of new_gondola "[Vec2 0 10, Vec2 0 0]" "1 / 100", folded drop_track_def]
  note b = speed_nonneg_below_start_height
    [of "start drop_track new_gondola" "[Vec2 0 10, Vec2 0 0]" "1 / 100", folded drop_track_def]
  have le: "currentHeight drop_track (start drop_track new_gondola)
       \<le> initialHeight drop_track (start drop_track new_gondola)"
    using drop_started(6) by simp
  have nw: "state (start drop_track new_gondola) \<noteq> Waiting"
    by (simp add: drop_started(1))
  have v0: "fle (Fin 0) (velocity (start drop_track new_gondola))"
    using a w by simp
  from b obtain g' where step: "animate drop_track (1 / 100) (start drop_track new_gondola) = Some g'"
    and after: "velocity g' =
            (if state (start drop_track new_gondola) = Started
                \<and> \<not> vlength (animate_tangent drop_track (start drop_track new_gondola)) < EPSILON
             then animate_velocity drop_track (start drop_track new_gondola)
             else velocity (start drop_track new_gondola))"
    and keep: "fle (Fin 0) (velocity (start drop_track new_gondola)) \<longrightarrow>
             currentHeight drop_track (start drop_track new_gondola)
               \<le> initialHeight drop_track (start drop_track new_gondola) \<longrightarrow>
             fle (Fin 0) (velocity g')"
    by blast
  from after have "velocity g' = animate_velocity drop_track (start drop_track new_gondola)"
    using drop_started(1,3) by simp
  then have v: "velocity g' = Fin (sqrt (149 / 1250))"
    by (simp only: drop_started(5))
  from keep v0 le have "fle (Fin 0) (velocity g')" by blast
  then have "fle (Fin 0) (Fin (sqrt (149 / 1250)))" by (simp only: v)
  moreover from b nw have "velocity (start drop_track (start drop_track new_gondola))
       = velocity (start drop_track new_gondola)" by blast
  moreover from b le have "fle (Fin 0) (animate_velocity drop_track (start drop_track new_gondola))"
    by blast
  moreover from a w have "velocity new_gondola = Fin 0" "velocity (start drop_track new_gondola) = Fin 0"
    by blast+
  ultimately show ?thesis
    using w nw le step v by simp
qed

theorem start_unchecked_steps_skip_witness:
  "state new_gondola = Waiting
   \<and> length (cps (build [Vec2 3 4])) < 2
   \<and> state (start (build [Vec2 3 4]) new_gondola) = Started
   \<and> evaluate (build [Vec2 3 4]) (Fin (1 / 2)) = Vec2 0 0
   \<and> animate_tangent (build [Vec2 3 4]) (start (build [Vec2 3 4]) new_gondola) = Vec2 0 0
   \<and> animate (build [Vec2 3 4]) (1 / 100) (start (build [Vec2 3 4]) new_gondola)
       = Some (start (build [Vec2 3 4]) new_gondola)
   \<and> run (build [Vec2 3 4]) [Start, Animate (1 / 100), Animate (1 / 100)] new_gondola
       = Some (start (build [Vec2 3 4]) new_gondola)
   \<and> reads_last_knot drop_track (start drop_track new_gondola)
   \<and> 2 \<le> length (cps drop_track)
   \<and> getKnots drop_track \<noteq> []
   \<and> animate drop_track (1 / 100) (start drop_track new_gondola) \<noteq> None"
proof -
  have w: "state new_gondola = Waiting" by (simp add: new_gondola_def)
  have few: "length (cps (build [Vec2 3 4])) < 2" by (simp add: cps_build)
  note a = start_unchecked_steps_skip
    [of new_gondola "build [Vec2 3 4]" "Fin (1 / 2)" "1 / 100" "[Animate (1 / 100), Animate (1 / 100)]"
      "[Vec2 3 4]"]
  note b = start_unchecked_steps_skip
    [of "start (build [Vec2 3 4]) new_gondola" "build [Vec2 3 4]" "Fin (1 / 2)" "1 / 100" "[]"
      "[Vec2 3 4]"]
  note c = start_unchecked_steps_skip
    [of "start drop_track new_gondola" drop_track "Fin (1 / 2)" "1 / 100" "[]"
      "[Vec2 0 10, Vec2 0 0]", folded drop_track_def]
  have reads: "reads_last_knot drop_track (start drop_track new_gondola)"
    by (simp add: reads_last_knot_def drop_started)
  from a w few have "state (start (build [Vec2 3 4]) new_gondola) = Started"
    "evaluate (build [Vec2 3 4]) (Fin (1 / 2)) = Vec2 0 0"
    "run (build [Vec2 3 4]) [Start, Animate (1 / 100), Animate (1 / 100)] new_gondola
       = Some (start (build [Vec2 3 4]) new_gondola)"
    by blast+
  moreover from b few have
    "animate_tangent (build [Vec2 3 4]) (start (build [Vec2 3 4]) new_gondola) = Vec2 0 0"
    "animate (build [Vec2 3 4]) (1 / 100) (start (build [Vec2 3 4]) new_gondola)
       = Some (start (build [Vec2 3 4]) new_gondola)"
    by blast+
  moreover from c reads have "2 \<le> length (cps drop_track)" "getKnots drop_track \<noteq> []"
    "animate drop_track (1 / 100) (start drop_track new_gondola) \<noteq> None"
    by blast+
  ultimately show ?thesis
    using w few reads by simp
qed

end
